theory Spec2Isabelle
  imports Complex_Main "HOL-Library.Word"
begin

section \<open>The telephony backend of \<^verbatim>\<open>server.js\<close>\<close>

text \<open>
  \<^verbatim>\<open>server.js\<close> is an Express application: three middleware layers (\<^verbatim>\<open>cors\<close> and the
  two body parsers), a table of routes, each with a handler that reads the request,
  possibly calls the telephony provider and writes one response, a 404 fallback and an
  error middleware. The embedding below follows the file. A handler is a function from the
  process environment, the values the outside world supplies during the request (clock,
  random source, provider replies, what the libraries do) and the request, to an outcome:
  the response written and the provider operations invoked, in order.

  What \<^verbatim>\<open>console.log\<close> and \<^verbatim>\<open>console.error\<close> print is not part of the outcome. A log
  line that interpolates a value in a template literal converts the value to a string,
  and that conversion can raise: each such line is kept in its handler as the check
  \<open>interpolate\<close>, at the place where the source has it.
\<close>

subsection \<open>JavaScript values\<close>

text \<open>
  A JavaScript string is a sequence of UTF-16 code units, and \<^verbatim>\<open>.length\<close> counts
  code units. String literals of the source are ASCII and are written with \<open>lit\<close>.
\<close>

type_synonym jsstring = "16 word list"

definition lit :: "string \<Rightarrow> jsstring" where
  "lit s = map (\<lambda>c. of_nat (of_char c)) s"

text \<open>
  A number is a double: a finite value (both zeros are \<open>Finite 0\<close>), an infinity or NaN.
\<close>

datatype jsnum = Finite rat | PosInfinity | NegInfinity | NaN

datatype jsval =
    JUndefined
  | JNull
  | JBool bool
  | JNum jsnum
  | JStr jsstring
  | JArr "jsval list"
  | JObj "(jsstring \<times> jsval) list"

type_synonym props = "(jsstring \<times> jsval) list"

text \<open>ToBoolean, as \<^verbatim>\<open>!x\<close>, \<^verbatim>\<open>x || y\<close> and \<^verbatim>\<open>if (x)\<close> apply it.\<close>

fun truthy :: "jsval \<Rightarrow> bool" where
  "truthy JUndefined = False"
| "truthy JNull = False"
| "truthy (JBool b) = b"
| "truthy (JNum (Finite q)) = (q \<noteq> 0)"
| "truthy (JNum PosInfinity) = True"
| "truthy (JNum NegInfinity) = True"
| "truthy (JNum NaN) = False"
| "truthy (JStr s) = (s \<noteq> [])"
| "truthy (JArr xs) = True"
| "truthy (JObj ps) = True"

text \<open>\<^verbatim>\<open>a || b\<close>: the left operand when it is truthy, the right one otherwise.\<close>

definition js_or :: "jsval \<Rightarrow> jsval \<Rightarrow> jsval" where
  "js_or a b = (if truthy a then a else b)"

text \<open>
  Reading a named property of a parsed object (\<^verbatim>\<open>req.body.To\<close>, the destructuring
  \<^verbatim>\<open>const { phoneNumber } = req.body\<close>): the own property, \<^verbatim>\<open>undefined\<close> when
  there is none. None of the names the source reads is a property of
  \<^verbatim>\<open>Object.prototype\<close>.
\<close>

definition get_prop :: "props \<Rightarrow> string \<Rightarrow> jsval" where
  "get_prop ps k = (case map_of ps (lit k) of None \<Rightarrow> JUndefined | Some v \<Rightarrow> v)"

text \<open>
  \<^verbatim>\<open>x.length\<close> for a value that is neither \<^verbatim>\<open>undefined\<close> nor \<^verbatim>\<open>null\<close>: the number
  of code units of a string, the number of elements of an array, the own property of that
  name of an object, and \<^verbatim>\<open>undefined\<close> for a number or a boolean. On \<^verbatim>\<open>undefined\<close>
  and \<^verbatim>\<open>null\<close> the read raises a TypeError.
\<close>

datatype js_error = Error (err_message: jsval) (err_toString: jsstring)

definition type_error :: "string \<Rightarrow> js_error" where
  "type_error m = Error (JStr (lit m)) (lit ''TypeError: '' @ lit m)"

fun js_length :: "jsval \<Rightarrow> js_error + jsval" where
  "js_length JUndefined = Inl (type_error ''Cannot read properties of undefined (reading 'length')'')"
| "js_length JNull = Inl (type_error ''Cannot read properties of null (reading 'length')'')"
| "js_length (JBool b) = Inr JUndefined"
| "js_length (JNum n) = Inr JUndefined"
| "js_length (JStr s) = Inr (JNum (Finite (of_nat (length s))))"
| "js_length (JArr xs) = Inr (JNum (Finite (of_nat (length xs))))"
| "js_length (JObj ps) = Inr (get_prop ps ''length'')"

text \<open>
  \<^verbatim>\<open>n.toString()\<close> and string concatenation with a number, for an integral number
  below \<open>10\<^sup>2\<^sup>1\<close> in magnitude: its decimal digits, with a minus sign when negative.
\<close>

definition digit_unit :: "nat \<Rightarrow> 16 word" where
  "digit_unit d = of_nat (48 + d)"

fun show_nat :: "nat \<Rightarrow> jsstring" where
  "show_nat n = (if n < 10 then [digit_unit n] else show_nat (n div 10) @ [digit_unit (n mod 10)])"

declare show_nat.simps [simp del]

definition int_toString :: "int \<Rightarrow> jsstring" where
  "int_toString i = (if i < 0 then of_nat 45 # show_nat (nat (- i)) else show_nat (nat i))"

text \<open>Reading a string of decimal digits back, and the test for an ASCII digit.\<close>

definition is_digit_unit :: "16 word \<Rightarrow> bool" where
  "is_digit_unit c = (48 \<le> unat c \<and> unat c \<le> 57)"

definition digits_value :: "jsstring \<Rightarrow> nat" where
  "digits_value s = foldl (\<lambda>acc c. 10 * acc + (unat c - 48)) 0 s"

text \<open>
  The string conversion of a template literal, \<^verbatim>\<open>`${v}`\<close>, on a parsed value. An object
  is converted by its \<^verbatim>\<open>toString\<close>; when the object has an own property of that name
  it is not a function (a parsed value never is), the inherited \<^verbatim>\<open>valueOf\<close> returns the
  object itself, and the conversion raises a TypeError. An array joins the conversions of
  its elements. Every other value converts.
\<close>

fun unprintable :: "jsval \<Rightarrow> bool" where
  "unprintable (JObj ps) = (map_of ps (lit ''toString'') \<noteq> None)"
| "unprintable (JArr xs) = list_ex unprintable xs"
| "unprintable v = False"

definition interpolate :: "jsval list \<Rightarrow> js_error option" where
  "interpolate vs =
     (if list_ex unprintable vs
      then Some (type_error ''Cannot convert object to primitive value'') else None)"

text \<open>
  Reading properties of \<^verbatim>\<open>req.body\<close>, which the body parsers leave \<^verbatim>\<open>undefined\<close> or set
  to a parsed value. \<open>props_of\<close> gives the named own properties of a value that has
  properties at all; the names the source reads are neither \<^verbatim>\<open>length\<close>, nor an index, nor
  a member of a prototype, so an array, a string, a number and a boolean have none of
  them. The destructuring \<^verbatim>\<open>const { k, ... } = req.body\<close> and the member read
  \<^verbatim>\<open>req.body.k\<close> raise a TypeError on \<^verbatim>\<open>undefined\<close> and \<^verbatim>\<open>null\<close>; \<open>k\<close> is the
  (first) name, which the message quotes.
\<close>

fun props_of :: "jsval \<Rightarrow> props option" where
  "props_of JUndefined = None"
| "props_of JNull = None"
| "props_of (JObj ps) = Some ps"
| "props_of v = Some []"

definition nullish_name :: "jsval \<Rightarrow> string" where
  "nullish_name v = (if v = JNull then ''null'' else ''undefined'')"

definition destructure :: "jsval \<Rightarrow> string \<Rightarrow> js_error + props" where
  "destructure v k =
     (case props_of v of
        Some ps \<Rightarrow> Inr ps
      | None \<Rightarrow>
          Inl (type_error (''Cannot destructure property '' @ [CHR 0x27] @ k @ [CHR 0x27] @
                           '' of '' @ [CHR 0x27] @ ''req.body'' @ [CHR 0x27] @
                           '' as it is '' @ nullish_name v @ ''.'')))"

definition read_member :: "jsval \<Rightarrow> string \<Rightarrow> js_error + jsval" where
  "read_member v k =
     (case props_of v of
        Some ps \<Rightarrow> Inr (get_prop ps k)
      | None \<Rightarrow>
          Inl (type_error (''Cannot read properties of '' @ nullish_name v @
                           '' (reading '' @ [CHR 0x27] @ k @ [CHR 0x27] @ '')'')))"

subsection \<open>Requests, the process environment and the outside world\<close>

text \<open>The request methods.\<close>

datatype http_method = GET | HEAD | POST | PUT | PATCH | DELETE | OPTIONS

text \<open>
  The fields of \<^verbatim>\<open>req\<close> the source reads. \<^verbatim>\<open>req.get('host')\<close> is the Host header,
  \<^verbatim>\<open>undefined\<close> when the request has none. \<^verbatim>\<open>req.query\<close> is always an object.
  \<open>req_body\<close> is what \<^verbatim>\<open>bodyParser.json()\<close> and \<^verbatim>\<open>bodyParser.urlencoded()\<close> make of
  the request: \<open>Inl\<close> the error they raise (malformed JSON, a body too large), \<open>Inr\<close> the
  value of \<^verbatim>\<open>req.body\<close> they leave. For a request without a body they parse, that value
  is the empty object under body-parser 1.x and \<^verbatim>\<open>undefined\<close> under body-parser 2.x.
  \<^verbatim>\<open>req.params\<close> is filled in by the router.
\<close>

record request =
  req_method :: http_method
  req_path :: jsstring
  req_protocol :: jsstring
  req_host :: "jsstring option"
  req_query :: props
  req_body :: "js_error + jsval"

text \<open>\<^verbatim>\<open>process.env\<close>: each variable is a string, or \<^verbatim>\<open>undefined\<close> when unset.\<close>

record process_env =
  TWILIO_ACCOUNT_SID :: jsval
  TWILIO_AUTH_TOKEN :: jsval
  TWILIO_API_KEY :: jsval
  TWILIO_API_SECRET :: jsval
  TWILIO_TWIML_APP_SID :: jsval
  TWILIO_PHONE_NUMBER :: jsval

text \<open>What the source hands to the \<^verbatim>\<open>twilio\<close> library.\<close>

record voice_grant =
  outgoingApplicationSid :: jsval
  incomingAllow :: bool

record access_token =
  tok_accountSid :: jsval
  tok_keySid :: jsval
  tok_secret :: jsval
  tok_identity :: jsval
  tok_ttl :: nat
  tok_grants :: "voice_grant list"

record message_args =
  msg_body :: jsval
  msg_from :: jsval
  msg_to :: jsval

record call_args =
  call_url :: jsstring
  call_to :: jsval
  call_from :: jsval
  call_statusCallback :: jsstring
  call_statusCallbackEvent :: "jsstring list"

text \<open>The resources the provider returns: the source reads \<^verbatim>\<open>.sid\<close> and \<^verbatim>\<open>.status\<close>.\<close>

record resource =
  res_sid :: jsval
  res_status :: jsval

text \<open>A provider operation the process invokes: the provider-visible side effects.\<close>

datatype provider_call =
    MessagesCreate message_args
  | CallsCreate call_args
  | CallsUpdate jsval jsstring

text \<open>
  The markup is kept as the tree the source builds with \<^verbatim>\<open>twilio.twiml.VoiceResponse\<close>:
  \<^verbatim>\<open>twiml.dial(attrs)\<close> appends a dial instruction, \<^verbatim>\<open>dial.number(n)\<close> gives it a number
  to ring, \<^verbatim>\<open>twiml.say(attrs, text)\<close> appends a spoken sentence, and
  \<^verbatim>\<open>twiml.toString()\<close> serialises the tree. \<^verbatim>\<open>twilio.twiml.MessagingResponse\<close> is the
  same for a reply message.
\<close>

record dial_attrs =
  callerId :: jsval
  answerOnBridge :: bool
  timeout :: nat

record say_attrs =
  voice :: jsstring
  language :: jsstring

datatype dial_noun = Number jsval

datatype voice_verb =
    Dial dial_attrs "dial_noun list"
  | Say say_attrs jsstring

datatype messaging_verb = Message jsstring

text \<open>
  Everything a handler obtains from outside its own code while it serves one request:
  \<^item> \<open>date_now\<close>: \<^verbatim>\<open>Date.now()\<close>, milliseconds; \<open>date_iso\<close>: \<^verbatim>\<open>new Date().toISOString()\<close>;
  \<^item> \<open>math_random\<close>: the value \<^verbatim>\<open>Math.random()\<close> returns;
  \<^item> \<open>fl\<close>: the rounding of an exact arithmetic result to the double that represents it;
  \<^item> \<open>toJwt\<close>: building and signing the access token, \<open>Inl\<close> when the library raises;
  \<^item> \<open>messages_create\<close>, \<open>calls_create\<close>, \<open>calls_update\<close>: the provider's replies,
    \<open>Inl\<close> when the awaited promise rejects;
  \<^item> \<open>voice_response_error\<close>, \<open>messaging_response_error\<close>: the error the \<^verbatim>\<open>twilio\<close>
    library raises while it builds and serialises this markup (it does on a number given
    as an array, for one), \<open>None\<close> when it returns the text;
  \<^item> \<open>decodeURIComponent\<close>: the percent-decoding of a path parameter, \<open>None\<close> for a
    URIError;
  \<^item> \<open>number_toString\<close>: the decimal text of a number.
\<close>

record extern =
  date_now :: nat
  date_iso :: jsstring
  math_random :: rat
  fl :: "rat \<Rightarrow> rat"
  toJwt :: "access_token \<Rightarrow> js_error + jsstring"
  messages_create :: "message_args \<Rightarrow> js_error + resource"
  calls_create :: "call_args \<Rightarrow> js_error + resource"
  calls_update :: "jsval \<Rightarrow> jsstring \<Rightarrow> js_error + resource"
  voice_response_error :: "voice_verb list \<Rightarrow> js_error option"
  messaging_response_error :: "messaging_verb list \<Rightarrow> js_error option"
  decodeURIComponent :: "jsstring \<Rightarrow> jsstring option"
  number_toString :: "jsnum \<Rightarrow> jsstring"

subsection \<open>Responses\<close>

datatype content_type = ApplicationJson | TextXml | TextPlain | NoContentType

datatype res_body =
    JsonBody jsval
  | VoiceResponse "voice_verb list"
  | MessagingResponse "messaging_verb list"
  | TextBody jsstring
  | NoBody

record response =
  status :: nat
  ctype :: content_type
  body :: res_body

record outcome =
  sent :: response
  invoked :: "provider_call list"

text \<open>\<^verbatim>\<open>res.status(n).json(obj)\<close>; \<^verbatim>\<open>res.json(obj)\<close> is the case \<open>n = 200\<close>.\<close>

definition res_json :: "nat \<Rightarrow> props \<Rightarrow> response" where
  "res_json n obj = \<lparr>status = n, ctype = ApplicationJson, body = JsonBody (JObj obj)\<rparr>"

text \<open>A field of a JSON response body, \<^verbatim>\<open>undefined\<close> when the body has no such field.\<close>

definition body_field :: "response \<Rightarrow> string \<Rightarrow> jsval" where
  "body_field r k = (case body r of JsonBody (JObj ps) \<Rightarrow> get_prop ps k | _ \<Rightarrow> JUndefined)"

text \<open>
  The last two \<^verbatim>\<open>app.use\<close> layers: the 404 fallback, and the error middleware, which
  answers when a middleware, the router or a handler without \<^verbatim>\<open>try\<close> raises.
\<close>

definition not_found :: "request \<Rightarrow> outcome" where
  "not_found req =
     \<lparr>sent = res_json 404
        [(lit ''success'', JBool False),
         (lit ''message'', JStr (lit ''Endpoint not found'')),
         (lit ''path'', JStr (req_path req))],
      invoked = []\<rparr>"

definition error_middleware :: "js_error \<Rightarrow> outcome" where
  "error_middleware err =
     \<lparr>sent = res_json 500
        [(lit ''success'', JBool False),
         (lit ''message'', JStr (lit ''Internal server error'')),
         (lit ''error'', err_message err)],
      invoked = []\<rparr>"

subsection \<open>The handlers\<close>

text \<open>
  \<^verbatim>\<open>app.get('/')\<close>: the health check. Nothing in it can raise.
\<close>

definition health_check :: "extern \<Rightarrow> outcome" where
  "health_check x =
     \<lparr>sent = res_json 200
        [(lit ''status'', JStr (lit ''Torrz Real VoIP Backend Running!'')),
         (lit ''timestamp'', JStr (date_iso x)),
         (lit ''endpoints'', JObj
            [(lit ''voiceToken'', JStr (lit ''/api/voice/token'')),
             (lit ''initiateCall'', JStr (lit ''/api/calls/initiate'')),
             (lit ''endCall'', JStr (lit ''/api/calls/end/:callSid'')),
             (lit ''sendSMS'', JStr (lit ''/api/messages/send'')),
             (lit ''sendOTP'', JStr (lit ''/api/otp/send''))])],
      invoked = []\<rparr>"

text \<open>
  \<^verbatim>\<open>app.get('/api/voice/token')\<close>. The whole body is inside \<^verbatim>\<open>try\<close>. Line 46 logs the
  identity before the token is built; lines 68 and 69 log the same identity and a prefix
  of the token after it, and raise nothing that line 46 did not. Whatever raises ends in
  the 500 response of the \<^verbatim>\<open>catch\<close>.
\<close>

definition token_identity :: "extern \<Rightarrow> request \<Rightarrow> jsval" where
  "token_identity x req =
     js_or (get_prop (req_query req) ''identity'')
           (JStr (lit ''user_'' @ int_toString (int (date_now x))))"

definition voice_access_token :: "process_env \<Rightarrow> extern \<Rightarrow> request \<Rightarrow> access_token" where
  "voice_access_token env x req =
     \<lparr>tok_accountSid = TWILIO_ACCOUNT_SID env,
      tok_keySid = TWILIO_API_KEY env,
      tok_secret = TWILIO_API_SECRET env,
      tok_identity = token_identity x req,
      tok_ttl = 3600,
      tok_grants =
        [\<lparr>outgoingApplicationSid = TWILIO_TWIML_APP_SID env, incomingAllow = True\<rparr>]\<rparr>"

definition voice_token_failed :: "js_error \<Rightarrow> outcome" where
  "voice_token_failed error =
     \<lparr>sent = res_json 500
        [(lit ''success'', JBool False),
         (lit ''message'', js_or (err_message error) (JStr (lit ''Failed to generate token''))),
         (lit ''error'', JStr (err_toString error))],
      invoked = []\<rparr>"

definition voice_token :: "process_env \<Rightarrow> extern \<Rightarrow> request \<Rightarrow> outcome" where
  "voice_token env x req =
     (case interpolate [token_identity x req] of
        Some error \<Rightarrow> voice_token_failed error
      | None \<Rightarrow>
          (case toJwt x (voice_access_token env x req) of
             Inl error \<Rightarrow> voice_token_failed error
           | Inr token \<Rightarrow>
               \<lparr>sent = res_json 200
                  [(lit ''success'', JBool True),
                   (lit ''token'', JStr token),
                   (lit ''identity'', token_identity x req),
                   (lit ''expiresIn'', JNum (Finite 3600))],
                invoked = []\<rparr>))"

text \<open>
  \<^verbatim>\<open>Math.floor(100000 + Math.random() * 900000)\<close>: the product and the sum are each
  rounded to a double; the floor of a double is exact.
\<close>

definition otp_number :: "extern \<Rightarrow> int" where
  "otp_number x = \<lfloor>fl x (100000 + fl x (math_random x * 900000))\<rfloor>"

definition otp_sms_body :: "jsstring \<Rightarrow> jsstring" where
  "otp_sms_body otp =
     lit ''Your TORRZ verification code is: '' @ otp @ lit ''. Valid for 10 minutes.''"

text \<open>
  \<^verbatim>\<open>app.post('/api/otp/send')\<close>; \<open>b\<close> is \<^verbatim>\<open>req.body\<close>. Line 109 logs the phone number
  and the code after the message is created, still inside \<^verbatim>\<open>try\<close>.
\<close>

definition otp_send_failed :: "js_error \<Rightarrow> response" where
  "otp_send_failed error =
     res_json 500
       [(lit ''success'', JBool False),
        (lit ''message'', js_or (err_message error) (JStr (lit ''Failed to send OTP'')))]"

definition otp_send :: "process_env \<Rightarrow> extern \<Rightarrow> jsval \<Rightarrow> outcome" where
  "otp_send env x b =
     (case destructure b ''phoneNumber'' of
        Inl error \<Rightarrow> \<lparr>sent = otp_send_failed error, invoked = []\<rparr>
      | Inr ps \<Rightarrow>
          let phoneNumber = get_prop ps ''phoneNumber'' in
          if \<not> truthy phoneNumber then
            \<lparr>sent = res_json 400
               [(lit ''success'', JBool False),
                (lit ''message'', JStr (lit ''Phone number is required''))],
             invoked = []\<rparr>
          else
            let otp = int_toString (otp_number x);
                args = \<lparr>msg_body = JStr (otp_sms_body otp),
                        msg_from = TWILIO_PHONE_NUMBER env,
                        msg_to = phoneNumber\<rparr>
            in case messages_create x args of
                 Inl error \<Rightarrow> \<lparr>sent = otp_send_failed error, invoked = [MessagesCreate args]\<rparr>
               | Inr message \<Rightarrow>
                   (case interpolate [phoneNumber, JStr otp] of
                      Some error \<Rightarrow>
                        \<lparr>sent = otp_send_failed error, invoked = [MessagesCreate args]\<rparr>
                    | None \<Rightarrow>
                        \<lparr>sent = res_json 200
                           [(lit ''success'', JBool True),
                            (lit ''message'', JStr (lit ''OTP sent successfully'')),
                            (lit ''requestId'', res_sid message),
                            (lit ''otp'', JStr otp)],
                         invoked = [MessagesCreate args]\<rparr>))"

text \<open>
  \<^verbatim>\<open>app.post('/api/otp/verify')\<close>. \<^verbatim>\<open>code.length === 6\<close> is strict equality with the
  number 6. No log line of this handler interpolates a value of the request.
\<close>

definition otp_verify_failed :: "js_error \<Rightarrow> outcome" where
  "otp_verify_failed error =
     \<lparr>sent = res_json 500
        [(lit ''success'', JBool False),
         (lit ''message'', js_or (err_message error) (JStr (lit ''Verification failed'')))],
      invoked = []\<rparr>"

definition otp_verify :: "extern \<Rightarrow> jsval \<Rightarrow> outcome" where
  "otp_verify x b =
     (case destructure b ''phoneNumber'' of
        Inl error \<Rightarrow> otp_verify_failed error
      | Inr ps \<Rightarrow>
          let phoneNumber = get_prop ps ''phoneNumber'';
              code = get_prop ps ''code'' in
          if \<not> truthy phoneNumber \<or> \<not> truthy code then
            \<lparr>sent = res_json 400
               [(lit ''success'', JBool False),
                (lit ''message'', JStr (lit ''Phone number and code are required''))],
             invoked = []\<rparr>
          else
            case js_length code of
              Inl error \<Rightarrow> otp_verify_failed error
            | Inr len \<Rightarrow>
                if len = JNum (Finite 6) then
                  \<lparr>sent = res_json 200
                     [(lit ''success'', JBool True),
                      (lit ''message'', JStr (lit ''Phone number verified successfully'')),
                      (lit ''token'', JStr (lit ''auth_token_'' @ int_toString (int (date_now x)))),
                      (lit ''userPhoneNumber'', phoneNumber)],
                   invoked = []\<rparr>
                else
                  \<lparr>sent = res_json 400
                     [(lit ''success'', JBool False),
                      (lit ''message'', JStr (lit ''Invalid verification code''))],
                   invoked = []\<rparr>)"

text \<open>
  The callback URLs of a call: \<^verbatim>\<open>`${req.protocol}://${req.get('host')}/api/calls/...`\<close>.
  A missing Host header is interpolated as the text \<^verbatim>\<open>undefined\<close>.
\<close>

definition base_url :: "request \<Rightarrow> jsstring" where
  "base_url req =
     req_protocol req @ lit ''://'' @
     (case req_host req of None \<Rightarrow> lit ''undefined'' | Some h \<Rightarrow> h)"

text \<open>
  \<^verbatim>\<open>app.post('/api/calls/initiate')\<close>. Line 174 logs \<^verbatim>\<open>fromNumber\<close> and
  \<^verbatim>\<open>toNumber\<close> before the call is created, line 184 the SID of the call after it.
\<close>

definition calls_initiate_failed :: "js_error \<Rightarrow> response" where
  "calls_initiate_failed error =
     res_json 500
       [(lit ''success'', JBool False),
        (lit ''message'', js_or (err_message error) (JStr (lit ''Failed to initiate call''))),
        (lit ''error'', JStr (err_toString error))]"

definition initiate_args :: "process_env \<Rightarrow> request \<Rightarrow> jsval \<Rightarrow> call_args" where
  "initiate_args env req toNumber =
     \<lparr>call_url = base_url req @ lit ''/api/calls/twiml'',
      call_to = toNumber,
      call_from = TWILIO_PHONE_NUMBER env,
      call_statusCallback = base_url req @ lit ''/api/calls/status'',
      call_statusCallbackEvent =
        [lit ''initiated'', lit ''ringing'', lit ''answered'', lit ''completed'']\<rparr>"

definition calls_initiate :: "process_env \<Rightarrow> extern \<Rightarrow> request \<Rightarrow> jsval \<Rightarrow> outcome" where
  "calls_initiate env x req b =
     (case destructure b ''toNumber'' of
        Inl error \<Rightarrow> \<lparr>sent = calls_initiate_failed error, invoked = []\<rparr>
      | Inr ps \<Rightarrow>
          let toNumber = get_prop ps ''toNumber'';
              fromNumber = get_prop ps ''fromNumber'' in
          if \<not> truthy toNumber \<or> \<not> truthy fromNumber then
            \<lparr>sent = res_json 400
               [(lit ''success'', JBool False),
                (lit ''message'', JStr (lit ''Both toNumber and fromNumber are required''))],
             invoked = []\<rparr>
          else
            case interpolate [fromNumber, toNumber] of
              Some error \<Rightarrow> \<lparr>sent = calls_initiate_failed error, invoked = []\<rparr>
            | None \<Rightarrow>
                let args = initiate_args env req toNumber
                in case calls_create x args of
                     Inl error \<Rightarrow>
                       \<lparr>sent = calls_initiate_failed error, invoked = [CallsCreate args]\<rparr>
                   | Inr call \<Rightarrow>
                       (case interpolate [res_sid call] of
                          Some error \<Rightarrow>
                            \<lparr>sent = calls_initiate_failed error, invoked = [CallsCreate args]\<rparr>
                        | None \<Rightarrow>
                            \<lparr>sent = res_json 200
                               [(lit ''success'', JBool True),
                                (lit ''message'', JStr (lit ''Call initiated successfully'')),
                                (lit ''callSid'', res_sid call),
                                (lit ''status'', res_status call)],
                             invoked = [CallsCreate args]\<rparr>))"

text \<open>
  \<^verbatim>\<open>app.delete('/api/calls/end/:callSid')\<close>; \<open>params\<close> is \<^verbatim>\<open>req.params\<close>. Line 216
  logs the call SID before the update, line 222 the SID the provider returns.
\<close>

definition calls_end_failed :: "js_error \<Rightarrow> response" where
  "calls_end_failed error =
     res_json 500
       [(lit ''success'', JBool False),
        (lit ''message'', js_or (err_message error) (JStr (lit ''Failed to end call''))),
        (lit ''error'', JStr (err_toString error))]"

definition calls_end :: "extern \<Rightarrow> props \<Rightarrow> outcome" where
  "calls_end x params =
     (let callSid = get_prop params ''callSid'' in
      if \<not> truthy callSid then
        \<lparr>sent = res_json 400
           [(lit ''success'', JBool False),
            (lit ''message'', JStr (lit ''Call SID is required''))],
         invoked = []\<rparr>
      else
        case interpolate [callSid] of
          Some error \<Rightarrow> \<lparr>sent = calls_end_failed error, invoked = []\<rparr>
        | None \<Rightarrow>
            (case calls_update x callSid (lit ''completed'') of
               Inl error \<Rightarrow>
                 \<lparr>sent = calls_end_failed error,
                  invoked = [CallsUpdate callSid (lit ''completed'')]\<rparr>
             | Inr call \<Rightarrow>
                 (case interpolate [res_sid call] of
                    Some error \<Rightarrow>
                      \<lparr>sent = calls_end_failed error,
                       invoked = [CallsUpdate callSid (lit ''completed'')]\<rparr>
                  | None \<Rightarrow>
                      \<lparr>sent = res_json 200
                         [(lit ''success'', JBool True),
                          (lit ''message'', JStr (lit ''Call ended successfully'')),
                          (lit ''callSid'', res_sid call),
                          (lit ''status'', res_status call)],
                       invoked = [CallsUpdate callSid (lit ''completed'')]\<rparr>)))"

text \<open>
  \<^verbatim>\<open>app.post('/api/calls/twiml')\<close>. This handler has no \<^verbatim>\<open>try\<close>: what raises in it
  reaches the error middleware. \<^verbatim>\<open>req.query.To || req.body.To\<close> reads the body only
  when the query has no truthy \<^verbatim>\<open>To\<close>, and \<^verbatim>\<open>From\<close> is read the same way. Lines 248
  and 249 log both values; then the markup is built and serialised by the library, and
  sent with \<^verbatim>\<open>res.type('text/xml')\<close> and status 200.
\<close>

definition query_or_body :: "request \<Rightarrow> jsval \<Rightarrow> string \<Rightarrow> js_error + jsval" where
  "query_or_body req b k =
     (if truthy (get_prop (req_query req) k) then Inr (get_prop (req_query req) k)
      else read_member b k)"

definition twiml_markup :: "process_env \<Rightarrow> jsval \<Rightarrow> voice_verb list" where
  "twiml_markup env toNumber =
     (if truthy toNumber then
        [Dial \<lparr>callerId = TWILIO_PHONE_NUMBER env, answerOnBridge = True, timeout = 30\<rparr>
              [Number toNumber]]
      else
        [Say \<lparr>voice = lit ''alice'', language = lit ''en-US''\<rparr>
             (lit ''No destination number was provided.'')])"

definition calls_twiml :: "process_env \<Rightarrow> extern \<Rightarrow> request \<Rightarrow> jsval \<Rightarrow> outcome" where
  "calls_twiml env x req b =
     (case query_or_body req b ''To'' of
        Inl error \<Rightarrow> error_middleware error
      | Inr toNumber \<Rightarrow>
          (case query_or_body req b ''From'' of
             Inl error \<Rightarrow> error_middleware error
           | Inr fromIdentity \<Rightarrow>
               (case interpolate [toNumber, fromIdentity] of
                  Some error \<Rightarrow> error_middleware error
                | None \<Rightarrow>
                    (case voice_response_error x (twiml_markup env toNumber) of
                       Some error \<Rightarrow> error_middleware error
                     | None \<Rightarrow>
                         \<lparr>sent = \<lparr>status = 200, ctype = TextXml,
                                   body = VoiceResponse (twiml_markup env toNumber)\<rparr>,
                          invoked = []\<rparr>))))"

text \<open>
  \<^verbatim>\<open>app.post('/api/calls/status')\<close>: logs the fields of the webhook (lines 287 to 291,
  \<^verbatim>\<open>Duration\<close> only when it is truthy) and acknowledges with \<^verbatim>\<open>res.sendStatus(200)\<close>.
  No \<^verbatim>\<open>try\<close>.
\<close>

definition calls_status :: "jsval \<Rightarrow> outcome" where
  "calls_status b =
     (case destructure b ''CallSid'' of
        Inl error \<Rightarrow> error_middleware error
      | Inr ps \<Rightarrow>
          (case interpolate
                  ([get_prop ps ''CallSid'', get_prop ps ''CallStatus'', get_prop ps ''From'',
                    get_prop ps ''To''] @
                   (if truthy (get_prop ps ''Duration'') then [get_prop ps ''Duration''] else [])) of
             Some error \<Rightarrow> error_middleware error
           | None \<Rightarrow>
               \<lparr>sent = \<lparr>status = 200, ctype = TextPlain, body = TextBody (lit ''OK'')\<rparr>,
                invoked = []\<rparr>))"

text \<open>
  \<^verbatim>\<open>app.post('/api/messages/send')\<close>. Line 309 logs \<^verbatim>\<open>toNumber\<close> before the message is
  created, line 317 the SID of the message after it.
\<close>

definition messages_send_failed :: "js_error \<Rightarrow> response" where
  "messages_send_failed error =
     res_json 500
       [(lit ''success'', JBool False),
        (lit ''message'', js_or (err_message error) (JStr (lit ''Failed to send SMS'')))]"

definition messages_send :: "process_env \<Rightarrow> extern \<Rightarrow> jsval \<Rightarrow> outcome" where
  "messages_send env x b =
     (case destructure b ''toNumber'' of
        Inl error \<Rightarrow> \<lparr>sent = messages_send_failed error, invoked = []\<rparr>
      | Inr ps \<Rightarrow>
          let toNumber = get_prop ps ''toNumber'';
              message = get_prop ps ''message'' in
          if \<not> truthy toNumber \<or> \<not> truthy message then
            \<lparr>sent = res_json 400
               [(lit ''success'', JBool False),
                (lit ''message'', JStr (lit ''toNumber and message are required''))],
             invoked = []\<rparr>
          else
            case interpolate [toNumber] of
              Some error \<Rightarrow> \<lparr>sent = messages_send_failed error, invoked = []\<rparr>
            | None \<Rightarrow>
                let args = \<lparr>msg_body = message, msg_from = TWILIO_PHONE_NUMBER env,
                            msg_to = toNumber\<rparr>
                in case messages_create x args of
                     Inl error \<Rightarrow>
                       \<lparr>sent = messages_send_failed error, invoked = [MessagesCreate args]\<rparr>
                   | Inr sms \<Rightarrow>
                       (case interpolate [res_sid sms] of
                          Some error \<Rightarrow>
                            \<lparr>sent = messages_send_failed error, invoked = [MessagesCreate args]\<rparr>
                        | None \<Rightarrow>
                            \<lparr>sent = res_json 200
                               [(lit ''success'', JBool True),
                                (lit ''message'', JStr (lit ''SMS sent successfully'')),
                                (lit ''messageSid'', res_sid sms)],
                             invoked = [MessagesCreate args]\<rparr>))"

text \<open>
  The text of a value that converts to a string (\<open>\<not> unprintable\<close>), as
  \<^verbatim>\<open>'...' + Body\<close> appends it: an array joins the texts of its elements with commas,
  \<^verbatim>\<open>null\<close> and \<^verbatim>\<open>undefined\<close> elements being empty.
\<close>

fun join_comma :: "jsstring list \<Rightarrow> jsstring" where
  "join_comma [] = []"
| "join_comma [s] = s"
| "join_comma (s # t # ss) = s @ lit '','' @ join_comma (t # ss)"

fun js_text :: "extern \<Rightarrow> jsval \<Rightarrow> jsstring" where
  "js_text x JUndefined = lit ''undefined''"
| "js_text x JNull = lit ''null''"
| "js_text x (JBool b) = (if b then lit ''true'' else lit ''false'')"
| "js_text x (JNum n) = number_toString x n"
| "js_text x (JStr s) = s"
| "js_text x (JArr vs) =
     join_comma (map (\<lambda>v. if v = JUndefined \<or> v = JNull then [] else js_text x v) vs)"
| "js_text x (JObj ps) = lit ''[object Object]''"

text \<open>
  \<^verbatim>\<open>app.post('/api/messages/receive')\<close>. Line 337 logs \<^verbatim>\<open>From\<close> and \<^verbatim>\<open>Body\<close>; the
  reply is built and serialised by the library. No \<^verbatim>\<open>try\<close>.
\<close>

definition messages_receive :: "extern \<Rightarrow> jsval \<Rightarrow> outcome" where
  "messages_receive x b =
     (case destructure b ''From'' of
        Inl error \<Rightarrow> error_middleware error
      | Inr ps \<Rightarrow>
          (case interpolate [get_prop ps ''From'', get_prop ps ''Body''] of
             Some error \<Rightarrow> error_middleware error
           | None \<Rightarrow>
               let twiml = [Message (lit ''Thank you for your message! We received: '' @
                                     js_text x (get_prop ps ''Body''))]
               in case messaging_response_error x twiml of
                    Some error \<Rightarrow> error_middleware error
                  | None \<Rightarrow>
                      \<lparr>sent = \<lparr>status = 200, ctype = TextXml, body = MessagingResponse twiml\<rparr>,
                       invoked = []\<rparr>))"

subsection \<open>The middleware and the router\<close>

text \<open>
  \<^verbatim>\<open>app.use(cors())\<close> comes first. With its default options \<^verbatim>\<open>cors\<close> answers every
  \<^verbatim>\<open>OPTIONS\<close> request itself, with status 204 and no body, and passes every other
  request on.
\<close>

definition cors_preflight :: outcome where
  "cors_preflight =
     \<lparr>sent = \<lparr>status = 204, ctype = NoContentType, body = NoBody\<rparr>, invoked = []\<rparr>"

text \<open>
  Express compiles a route path to a regular expression that ignores ASCII case and allows
  one trailing slash: \<^verbatim>\<open>/^\/api\/otp\/send\/?$/i\<close>, and \<^verbatim>\<open>/^\/?$/i\<close> for \<^verbatim>\<open>'/'\<close>.
  A parameter \<^verbatim>\<open>:callSid\<close> stands for \<^verbatim>\<open>([^\/]+?)\<close>, one or more code units other
  than a slash: \<^verbatim>\<open>/^\/api\/calls\/end\/(?:([^\/]+?))\/?$/i\<close>.
\<close>

definition slash :: "16 word" where
  "slash = 47"

definition ascii_lower :: "16 word \<Rightarrow> 16 word" where
  "ascii_lower c = (if 65 \<le> unat c \<and> unat c \<le> 90 then c + 32 else c)"

datatype pattern = Static string | Param string string

definition match_static :: "string \<Rightarrow> jsstring \<Rightarrow> bool" where
  "match_static pat p =
     (let q = map ascii_lower (lit pat); p' = map ascii_lower p in
      if q \<noteq> [] \<and> last q = slash then p' = q \<or> p' = butlast q
      else p' = q \<or> p' = q @ [slash])"

definition match_param :: "string \<Rightarrow> jsstring \<Rightarrow> jsstring option" where
  "match_param prefix p =
     (let q = map ascii_lower (lit prefix);
          rest = drop (length q) p;
          seg = (if rest \<noteq> [] \<and> last rest = slash then butlast rest else rest)
      in if map ascii_lower (take (length q) p) = q \<and> seg \<noteq> [] \<and> slash \<notin> set seg
         then Some seg else None)"

text \<open>
  The parameters a path gives a pattern: \<open>Inr None\<close> when the path does not match. Express
  decodes a parameter with \<^verbatim>\<open>decodeURIComponent\<close> while it matches the path, before it
  looks at the method; when that raises, Express fails the request with the error
  \<open>decode_failed\<close>.
\<close>

definition decode_failed :: "jsstring \<Rightarrow> js_error" where
  "decode_failed seg =
     Error (JStr (lit ''Failed to decode param '' @ [39] @ seg @ [39]))
           (lit ''URIError: Failed to decode param '' @ [39] @ seg @ [39])"

fun match_pattern :: "extern \<Rightarrow> pattern \<Rightarrow> jsstring \<Rightarrow> js_error + props option" where
  "match_pattern x (Static pat) p = Inr (if match_static pat p then Some [] else None)"
| "match_pattern x (Param prefix name) p =
     (case match_param prefix p of
        None \<Rightarrow> Inr None
      | Some seg \<Rightarrow>
          (case decodeURIComponent x seg of
             None \<Rightarrow> Inl (decode_failed seg)
           | Some v \<Rightarrow> Inr (Some [(lit name, JStr v)])))"

text \<open>A route registered for GET also serves HEAD.\<close>

definition handles_method :: "http_method \<Rightarrow> http_method \<Rightarrow> bool" where
  "handles_method route_method m = (m = route_method \<or> (m = HEAD \<and> route_method = GET))"

text \<open>
  A handler gets the environment, the outside world, the request, \<^verbatim>\<open>req.body\<close> and
  \<^verbatim>\<open>req.params\<close>.
\<close>

type_synonym handler =
  "process_env \<Rightarrow> extern \<Rightarrow> request \<Rightarrow> jsval \<Rightarrow> props \<Rightarrow> outcome"

text \<open>The routes in the order \<^verbatim>\<open>server.js\<close> registers them.\<close>

definition routes :: "(http_method \<times> pattern \<times> handler) list" where
  "routes =
     [(GET, Static ''/'', \<lambda>env x req b params. health_check x),
      (GET, Static ''/api/voice/token'', \<lambda>env x req b params. voice_token env x req),
      (POST, Static ''/api/otp/send'', \<lambda>env x req b params. otp_send env x b),
      (POST, Static ''/api/otp/verify'', \<lambda>env x req b params. otp_verify x b),
      (POST, Static ''/api/calls/initiate'', \<lambda>env x req b params. calls_initiate env x req b),
      (DELETE, Param ''/api/calls/end/'' ''callSid'', \<lambda>env x req b params. calls_end x params),
      (POST, Static ''/api/calls/twiml'', \<lambda>env x req b params. calls_twiml env x req b),
      (POST, Static ''/api/calls/status'', \<lambda>env x req b params. calls_status b),
      (POST, Static ''/api/messages/send'', \<lambda>env x req b params. messages_send env x b),
      (POST, Static ''/api/messages/receive'', \<lambda>env x req b params. messages_receive x b)]"

text \<open>
  Express walks the layers in order and runs the first route whose path and method match.
  A route whose path matching raises sends the request to the error middleware. A request
  that no route takes reaches the 404 fallback.
\<close>

fun dispatch :: "(http_method \<times> pattern \<times> handler) list \<Rightarrow> process_env \<Rightarrow> extern \<Rightarrow> request \<Rightarrow> jsval \<Rightarrow> outcome" where
  "dispatch [] env x req b = not_found req"
| "dispatch ((m, pat, h) # rest) env x req b =
     (case match_pattern x pat (req_path req) of
        Inl error \<Rightarrow> error_middleware error
      | Inr None \<Rightarrow> dispatch rest env x req b
      | Inr (Some params) \<Rightarrow>
          if handles_method m (req_method req) then h env x req b params
          else dispatch rest env x req b)"

text \<open>
  The application: \<^verbatim>\<open>cors\<close>, the body parsers (an error of theirs goes to the error
  middleware, past the routes and the fallback), then the routes.
\<close>

definition handle :: "process_env \<Rightarrow> extern \<Rightarrow> request \<Rightarrow> outcome" where
  "handle env x req =
     (if req_method req = OPTIONS then cors_preflight
      else case req_body req of
             Inl error \<Rightarrow> error_middleware error
           | Inr b \<Rightarrow> dispatch routes env x req b)"

text \<open>
  Whether a route of the table takes the request (its path pattern and its method match),
  and whether matching its path raises.
\<close>

definition route_takes :: "extern \<Rightarrow> request \<Rightarrow> http_method \<times> pattern \<times> handler \<Rightarrow> bool" where
  "route_takes x req r =
     (case r of (m, pat, h) \<Rightarrow>
        handles_method m (req_method req) \<and>
        (case match_pattern x pat (req_path req) of Inr (Some params) \<Rightarrow> True | _ \<Rightarrow> False))"

definition route_raises :: "extern \<Rightarrow> request \<Rightarrow> http_method \<times> pattern \<times> handler \<Rightarrow> bool" where
  "route_raises x req r =
     (case r of (m, pat, h) \<Rightarrow>
        (case match_pattern x pat (req_path req) of Inl error \<Rightarrow> True | _ \<Rightarrow> False))"

subsection \<open>Vocabulary of the properties\<close>

text \<open>
  A field of the request body: the value the destructuring of a handler gives the name,
  \<^verbatim>\<open>undefined\<close> when the body has no such field, when there is no body, and when the body
  parser failed. A field is missing when the body is there and does not have it.
\<close>

definition body_prop :: "request \<Rightarrow> string \<Rightarrow> jsval" where
  "body_prop req k =
     (case req_body req of
        Inl error \<Rightarrow> JUndefined
      | Inr b \<Rightarrow> (case props_of b of None \<Rightarrow> JUndefined | Some ps \<Rightarrow> get_prop ps k))"

definition missing :: "request \<Rightarrow> string \<Rightarrow> bool" where
  "missing req k =
     (case req_body req of
        Inl error \<Rightarrow> False
      | Inr b \<Rightarrow> (case props_of b of None \<Rightarrow> False | Some ps \<Rightarrow> map_of ps (lit k) = None))"

text \<open>The request passed the body parsers.\<close>

definition parsed :: "request \<Rightarrow> bool" where
  "parsed req = (case req_body req of Inl error \<Rightarrow> False | Inr b \<Rightarrow> True)"

text \<open>The instructions of a call-control response, by kind.\<close>

definition markup :: "response \<Rightarrow> voice_verb list" where
  "markup r = (case body r of VoiceResponse vs \<Rightarrow> vs | _ \<Rightarrow> [])"

fun dial_verbs :: "voice_verb list \<Rightarrow> (dial_attrs \<times> dial_noun list) list" where
  "dial_verbs [] = []"
| "dial_verbs (Dial a ns # vs) = (a, ns) # dial_verbs vs"
| "dial_verbs (Say a t # vs) = dial_verbs vs"

fun say_verbs :: "voice_verb list \<Rightarrow> (say_attrs \<times> jsstring) list" where
  "say_verbs [] = []"
| "say_verbs (Dial a ns # vs) = say_verbs vs"
| "say_verbs (Say a t # vs) = (a, t) # say_verbs vs"

text \<open>
  The finite doubles are the rationals \<open>m \<sqdot> 2\<^sup>e\<close> with \<open>\<bar>m\<bar> < 2\<^sup>5\<^sup>3\<close> and
  \<open>-1074 \<le> e \<le> 971\<close>. An arithmetic operation returns a double nearest to the exact
  result.
\<close>

definition is_double :: "rat \<Rightarrow> bool" where
  "is_double q = (\<exists>m e. \<bar>m\<bar> < 2 ^ 53 \<and> - 1074 \<le> e \<and> e \<le> 971 \<and> q = of_int m * 2 powi e)"

definition nearest_double :: "rat \<Rightarrow> rat \<Rightarrow> bool" where
  "nearest_double q d = (is_double d \<and> (\<forall>d'. is_double d' \<longrightarrow> \<bar>d - q\<bar> \<le> \<bar>d' - q\<bar>))"

text \<open>
  The random source and the arithmetic of \<open>otp_number\<close> behave as the language says:
  \<^verbatim>\<open>Math.random()\<close> is a double in \<open>[0, 1)\<close>, and the product and the sum are rounded
  to a nearest double.
\<close>

definition ieee_otp :: "extern \<Rightarrow> bool" where
  "ieee_otp x =
     (is_double (math_random x) \<and> 0 \<le> math_random x \<and> math_random x < 1 \<and>
      nearest_double (math_random x * 900000) (fl x (math_random x * 900000)) \<and>
      nearest_double (100000 + fl x (math_random x * 900000))
        (fl x (100000 + fl x (math_random x * 900000))))"

text \<open>A route path without upper-case letters.\<close>

definition lower_case :: "string \<Rightarrow> bool" where
  "lower_case s = list_all (\<lambda>c. \<not> (65 \<le> (of_char c :: nat) \<and> (of_char c :: nat) \<le> 90)) s"


subsection \<open>A sample configuration\<close>

text \<open>
  A configured environment, an outside world in which the provider accepts every
  operation and the libraries raise nothing, and a request with the given method, path,
  query and parsed body (numbers are printed as integers). The sample random value \<open>1/2\<close> makes the product and the sum of
  \<open>otp_number\<close> exact.
\<close>

definition sample_env :: process_env where
  "sample_env =
     \<lparr>TWILIO_ACCOUNT_SID = JStr (lit ''AC00''),
      TWILIO_AUTH_TOKEN = JStr (lit ''secret''),
      TWILIO_API_KEY = JStr (lit ''SK00''),
      TWILIO_API_SECRET = JStr (lit ''keysecret''),
      TWILIO_TWIML_APP_SID = JStr (lit ''AP00''),
      TWILIO_PHONE_NUMBER = JStr (lit ''+15550000000'')\<rparr>"

definition sample_extern :: extern where
  "sample_extern =
     \<lparr>date_now = 1700000000000,
      date_iso = lit ''2023-11-14T22:13:20.000Z'',
      math_random = 1 / 2,
      fl = (\<lambda>q. q),
      toJwt = (\<lambda>a. Inr (lit ''jwt'')),
      messages_create = (\<lambda>a. Inr \<lparr>res_sid = JStr (lit ''SM01''), res_status = JStr (lit ''queued'')\<rparr>),
      calls_create = (\<lambda>a. Inr \<lparr>res_sid = JStr (lit ''CA01''), res_status = JStr (lit ''queued'')\<rparr>),
      calls_update = (\<lambda>sid st. Inr \<lparr>res_sid = sid, res_status = JStr st\<rparr>),
      voice_response_error = (\<lambda>t. None),
      messaging_response_error = (\<lambda>t. None),
      decodeURIComponent = (\<lambda>s. Some s),
      number_toString =
        (\<lambda>n. case n of Finite q \<Rightarrow> int_toString \<lfloor>q\<rfloor> | PosInfinity \<Rightarrow> lit ''Infinity''
              | NegInfinity \<Rightarrow> lit ''-Infinity'' | NaN \<Rightarrow> lit ''NaN'')\<rparr>"

definition sample_request :: "http_method \<Rightarrow> string \<Rightarrow> props \<Rightarrow> jsval \<Rightarrow> request" where
  "sample_request m p q b =
     \<lparr>req_method = m, req_path = lit p, req_protocol = lit ''https'',
      req_host = Some (lit ''api.example.com''), req_query = q, req_body = Inr b\<rparr>"

text \<open>An object whose conversion to a string raises: \<^verbatim>\<open>{"toString": 1}\<close>.\<close>

definition no_text :: jsval where
  "no_text = JObj [(lit ''toString'', JNum (Finite 1))]"

section \<open>Properties\<close>

subsection \<open>String literals and property reads\<close>

lemma of_char_less_2_16: "(of_char e :: nat) < 2 ^ 16"
proof -
  have "(of_char e :: nat) mod 256 < 256" by (rule mod_less_divisor) simp
  then have "(of_char e :: nat) < 256" by (simp only: of_char_mod_256)
  also have "(256::nat) < 2 ^ 16" by simp
  finally show ?thesis .
qed

lemma unit_of_char_inj: "(of_nat (of_char c) :: 16 word) = of_nat (of_char d) \<longleftrightarrow> c = d"
proof
  assume h: "(of_nat (of_char c) :: 16 word) = of_nat (of_char d)"
  then have "unat (of_nat (of_char c) :: 16 word) = unat (of_nat (of_char d) :: 16 word)"
    by (rule arg_cong)
  then have "(of_char c :: nat) mod 2 ^ 16 = of_char d mod 2 ^ 16"
    by (simp only: unat_of_nat take_bit_eq_mod len_of_numeral_defs) simp
  then have "(of_char c :: nat) = of_char d"
    using of_char_less_2_16 [of c] of_char_less_2_16 [of d]
    by (simp only: mod_less)
  then show "c = d" by (simp only: of_char_eq_iff)
next
  assume "c = d" then show "(of_nat (of_char c) :: 16 word) = of_nat (of_char d)" by (rule arg_cong)
qed


lemma lit_Nil [simp]: "lit [] = []"
  by (simp add: lit_def)

lemma lit_Cons: "lit (c # s) = of_nat (of_char c) # lit s"
  by (simp add: lit_def)

lemma lit_append: "lit (a @ b) = lit a @ lit b"
  by (simp add: lit_def)

lemma lit_eq_Nil [simp]: "lit a = [] \<longleftrightarrow> a = []"
  by (simp add: lit_def)

lemma length_lit [simp]: "length (lit a) = length a"
  by (simp add: lit_def)

lemma lit_eq_iff [simp]: "lit a = lit b \<longleftrightarrow> a = b"
proof (induction a arbitrary: b)
  case Nil
  show ?case by (cases b) (simp_all add: lit_Cons)
next
  case (Cons c a)
  show ?case
  proof (cases b)
    case Nil
    then show ?thesis by (simp add: lit_Cons)
  next
    case (Cons d b')
    then show ?thesis
      using Cons.IH [of b'] by (simp only: lit_Cons list.inject unit_of_char_inj)
  qed
qed

lemma get_prop_Cons:
  "get_prop ((lit j, v) # ps) k = (if j = k then v else get_prop ps k)"
  by (simp add: get_prop_def)

lemma unat_unit: "unat (of_nat (of_char c) :: 16 word) = of_char c"
  using of_char_less_2_16 [of c]
  by (simp only: unat_of_nat take_bit_eq_mod len_of_numeral_defs) simp

lemma lower_lit: "lower_case s \<Longrightarrow> map ascii_lower (lit s) = lit s"
  by (induction s) (simp_all add: lower_case_def lit_Cons ascii_lower_def unat_unit)

lemma slash_unit: "slash = of_nat (of_char CHR ''/'')"
  by (simp add: slash_def)

lemma lit_snoc_slash: "lit s @ [slash] = lit (s @ ''/'')"
  by (simp add: lit_append lit_Cons slash_unit)

lemma last_lit_slash: "s \<noteq> [] \<Longrightarrow> last (lit s) = slash \<longleftrightarrow> last s = CHR ''/''"
proof -
  assume "s \<noteq> []"
  then have "last (lit s) = of_nat (of_char (last s))"
    by (simp add: lit_def last_map)
  then show ?thesis
    by (simp only: slash_unit unit_of_char_inj)
qed

lemma match_static_iff:
  assumes "lower_case pat" "pat \<noteq> []" "last pat \<noteq> CHR ''/''"
  shows "match_static pat p \<longleftrightarrow>
         map ascii_lower p = lit pat \<or> map ascii_lower p = lit (pat @ ''/'')"
  using assms by (simp add: match_static_def lower_lit last_lit_slash lit_snoc_slash Let_def)

lemma match_static_root:
  "match_static ''/'' p \<longleftrightarrow> map ascii_lower p = lit ''/'' \<or> map ascii_lower p = []"
proof -
  have l: "map ascii_lower (lit ''/'') = lit ''/''" by (rule lower_lit) (simp add: lower_case_def)
  have s: "lit ''/'' = [slash]" by (simp add: lit_Cons slash_unit)
  show ?thesis unfolding match_static_def l by (simp add: s)
qed

lemma take_lit: "take n (lit s) = lit (take n s)"
  by (simp add: lit_def take_map)

lemma match_param_lower:
  assumes "lower_case prefix"
  shows "match_param prefix p =
     (if take (length prefix) (map ascii_lower p) = lit prefix
      then (let rest = drop (length prefix) p;
                seg = (if rest \<noteq> [] \<and> last rest = slash then butlast rest else rest)
            in if seg \<noteq> [] \<and> slash \<notin> set seg then Some seg else None)
      else None)"
proof -
  have nest: "(if A \<and> B then x else y) = (if A then (if B then x else y) else y)"
    for A B and x y :: "jsstring option"
    by simp
  show ?thesis
    unfolding match_param_def Let_def lower_lit [OF assms] length_lit take_map by (rule nest)
qed

subsection \<open>Which handler the application runs\<close>



lemma handle_otp_send:
  assumes "req_method req = POST" "match_static ''/api/otp/send'' (req_path req)"
      and "req_body req = Inr b"
  shows "handle env x req = otp_send env x b"
proof -
  have "map ascii_lower (req_path req) = lit ''/api/otp/send''
      \<or> map ascii_lower (req_path req) = lit ''/api/otp/send/''"
    using assms(2) by (simp add: match_static_iff lower_case_def)
  then show ?thesis
  proof (elim disjE)
    assume "map ascii_lower (req_path req) = lit ''/api/otp/send''"
    then show ?thesis using assms(1,3)
      by (simp add: handle_def routes_def handles_method_def match_static_iff
         match_static_root match_param_lower lower_case_def take_lit)
  next
    assume "map ascii_lower (req_path req) = lit ''/api/otp/send/''"
    then show ?thesis using assms(1,3)
      by (simp add: handle_def routes_def handles_method_def match_static_iff
         match_static_root match_param_lower lower_case_def take_lit)
  qed
qed

lemma handle_otp_verify:
  assumes "req_method req = POST" "match_static ''/api/otp/verify'' (req_path req)"
      and "req_body req = Inr b"
  shows "handle env x req = otp_verify x b"
proof -
  have "map ascii_lower (req_path req) = lit ''/api/otp/verify''
      \<or> map ascii_lower (req_path req) = lit ''/api/otp/verify/''"
    using assms(2) by (simp add: match_static_iff lower_case_def)
  then show ?thesis
  proof (elim disjE)
    assume "map ascii_lower (req_path req) = lit ''/api/otp/verify''"
    then show ?thesis using assms(1,3)
      by (simp add: handle_def routes_def handles_method_def match_static_iff
         match_static_root match_param_lower lower_case_def take_lit)
  next
    assume "map ascii_lower (req_path req) = lit ''/api/otp/verify/''"
    then show ?thesis using assms(1,3)
      by (simp add: handle_def routes_def handles_method_def match_static_iff
         match_static_root match_param_lower lower_case_def take_lit)
  qed
qed

lemma handle_calls_initiate:
  assumes "req_method req = POST" "match_static ''/api/calls/initiate'' (req_path req)"
      and "req_body req = Inr b"
  shows "handle env x req = calls_initiate env x req b"
proof -
  have "map ascii_lower (req_path req) = lit ''/api/calls/initiate''
      \<or> map ascii_lower (req_path req) = lit ''/api/calls/initiate/''"
    using assms(2) by (simp add: match_static_iff lower_case_def)
  then show ?thesis
  proof (elim disjE)
    assume "map ascii_lower (req_path req) = lit ''/api/calls/initiate''"
    then show ?thesis using assms(1,3)
      by (simp add: handle_def routes_def handles_method_def match_static_iff
         match_static_root match_param_lower lower_case_def take_lit)
  next
    assume "map ascii_lower (req_path req) = lit ''/api/calls/initiate/''"
    then show ?thesis using assms(1,3)
      by (simp add: handle_def routes_def handles_method_def match_static_iff
         match_static_root match_param_lower lower_case_def take_lit)
  qed
qed

lemma handle_calls_twiml:
  assumes "req_method req = POST" "match_static ''/api/calls/twiml'' (req_path req)"
      and "req_body req = Inr b"
  shows "handle env x req = calls_twiml env x req b"
proof -
  have "map ascii_lower (req_path req) = lit ''/api/calls/twiml''
      \<or> map ascii_lower (req_path req) = lit ''/api/calls/twiml/''"
    using assms(2) by (simp add: match_static_iff lower_case_def)
  then show ?thesis
  proof (elim disjE)
    assume "map ascii_lower (req_path req) = lit ''/api/calls/twiml''"
    then show ?thesis using assms(1,3)
      by (simp add: handle_def routes_def handles_method_def match_static_iff
         match_static_root match_param_lower lower_case_def take_lit)
  next
    assume "map ascii_lower (req_path req) = lit ''/api/calls/twiml/''"
    then show ?thesis using assms(1,3)
      by (simp add: handle_def routes_def handles_method_def match_static_iff
         match_static_root match_param_lower lower_case_def take_lit)
  qed
qed


subsection \<open>Reading responses and sample requests\<close>

lemma js_length_6_truthy: "js_length v = Inr (JNum (Finite 6)) \<Longrightarrow> truthy v"
proof (cases v)
  case (JNum n)
  assume "js_length v = Inr (JNum (Finite 6))"
  with JNum show ?thesis by simp
next
  case (JStr s)
  assume "js_length v = Inr (JNum (Finite 6))"
  with JStr have "length s = 6" by simp
  with JStr show ?thesis by auto
qed simp_all

lemma body_field_res_json: "body_field (res_json n obj) k = get_prop obj k"
  by (simp add: body_field_def res_json_def)

lemma status_res_json: "status (res_json n obj) = n"
  by (simp add: res_json_def)

lemma match_static_self:
  assumes "lower_case pat" "pat \<noteq> []" "last pat \<noteq> CHR ''/''"
  shows "match_static pat (lit pat)"
  using assms by (simp add: match_static_iff lower_lit)

lemma sample_request_simps [simp]:
  "req_method (sample_request m p q b) = m"
  "req_path (sample_request m p q b) = lit p"
  "req_query (sample_request m p q b) = q"
  "req_body (sample_request m p q b) = Inr b"
  by (simp_all add: sample_request_def)

subsection \<open>Decimal digits\<close>

lemma unat_digit_unit: "d < 10 \<Longrightarrow> unat (digit_unit d) = 48 + d"
proof -
  assume "d < 10"
  then have small: "48 + d < 2 ^ LENGTH(16)" by simp
  have "unat (of_nat (48 + d) :: 16 word) = (48 + d) mod 2 ^ LENGTH(16)"
    by (simp only: unat_of_nat)
  also have "\<dots> = 48 + d"
    using small by (rule mod_less)
  finally show ?thesis by (simp only: digit_unit_def)
qed

lemma show_nat_small: "n < 10 \<Longrightarrow> show_nat n = [digit_unit n]"
  by (subst show_nat.simps) simp

lemma show_nat_large: "10 \<le> n \<Longrightarrow> show_nat n = show_nat (n div 10) @ [digit_unit (n mod 10)]"
  by (subst show_nat.simps) simp

lemma length_show_nat: "10 ^ k \<le> n \<Longrightarrow> n < 10 ^ Suc k \<Longrightarrow> length (show_nat n) = Suc k"
proof (induction k arbitrary: n)
  case 0
  then show ?case by (simp add: show_nat_small)
next
  case (Suc k)
  have "(10::nat) ^ 1 \<le> 10 ^ Suc k" by (rule power_increasing) simp_all
  then have "(10::nat) \<le> 10 ^ Suc k" by (simp only: power_one_right)
  from this Suc.prems(1) have big: "10 \<le> n" by (rule order_trans)
  define a :: nat where "a = 10 ^ k"
  from Suc.prems have "10 * a \<le> n" "n < 10 * (10 * a)"
    by (simp_all add: a_def)
  then have "a \<le> n div 10" "n div 10 < 10 * a"
    by arith+
  then have lo: "10 ^ k \<le> n div 10" and hi: "n div 10 < 10 ^ Suc k"
    by (simp_all add: a_def)
  show ?case
    using Suc.IH [OF lo hi] by (simp add: show_nat_large [OF big])
qed

lemma digits_show_nat: "list_all is_digit_unit (show_nat n)"
proof (induction n rule: show_nat.induct)
  case (1 n)
  show ?case
  proof (cases "n < 10")
    case True
    then show ?thesis by (simp add: show_nat_small is_digit_unit_def unat_digit_unit)
  next
    case False
    then have big: "10 \<le> n" by simp
    have "n mod 10 < 10" by simp
    then have "is_digit_unit (digit_unit (n mod 10))"
      by (simp only: is_digit_unit_def unat_digit_unit) simp
    then show ?thesis using 1 [OF False] by (simp add: show_nat_large [OF big])
  qed
qed

lemma digits_value_snoc: "digits_value (s @ [c]) = 10 * digits_value s + (unat c - 48)"
  by (simp add: digits_value_def)

lemma digits_value_show_nat: "digits_value (show_nat n) = n"
proof (induction n rule: show_nat.induct)
  case (1 n)
  show ?case
  proof (cases "n < 10")
    case True
    then show ?thesis by (simp add: show_nat_small digits_value_def unat_digit_unit)
  next
    case False
    then have big: "10 \<le> n" by simp
    have m: "n mod 10 < 10" by simp
    show ?thesis
      using 1 [OF False]
      by (simp add: show_nat_large [OF big] digits_value_snoc unat_digit_unit [OF m])
  qed
qed

subsection \<open>Double rounding of the OTP expression\<close>

lemma is_double_of_int: "\<bar>n\<bar> < 2 ^ 53 \<Longrightarrow> is_double (of_int n)"
  unfolding is_double_def by (rule exI [of _ n], rule exI [of _ 0]) simp

lemma is_double_scaled:
  assumes "\<bar>m\<bar> < 2 ^ 53" "- 1074 \<le> e" "e \<le> 971"
  shows "is_double (of_int m * 2 powi e)"
  unfolding is_double_def using assms by blast

lemma nearest_self: "is_double q \<Longrightarrow> nearest_double q q"
  by (simp add: nearest_double_def)

lemma nearest_le:
  assumes "nearest_double q d" "is_double b" "q \<le> b"
  shows "d \<le> b"
proof (rule ccontr)
  assume "\<not> d \<le> b"
  then have "b < d" by simp
  from assms(1,2) have "\<bar>d - q\<bar> \<le> \<bar>b - q\<bar>" by (simp add: nearest_double_def)
  with \<open>b < d\<close> \<open>q \<le> b\<close> show False by linarith
qed

lemma nearest_ge:
  assumes "nearest_double q d" "is_double b" "b \<le> q"
  shows "b \<le> d"
proof (rule ccontr)
  assume "\<not> b \<le> d"
  then have "d < b" by simp
  from assms(1,2) have "\<bar>d - q\<bar> \<le> \<bar>b - q\<bar>" by (simp add: nearest_double_def)
  with \<open>d < b\<close> \<open>b \<le> q\<close> show False by linarith
qed

text \<open>A double of magnitude at least \<open>2\<^sup>1\<^sup>9\<close> is a multiple of \<open>2\<^sup>-\<^sup>3\<^sup>3\<close>.\<close>

lemma is_double_grid:
  assumes "is_double d" "2 ^ 19 \<le> d"
  shows "\<exists>k::int. d = of_int k / 2 ^ 33"
proof -
  from assms(1) obtain m e where m: "\<bar>m\<bar> < 2 ^ 53" and d: "d = of_int m * 2 powi e"
    unfolding is_double_def by blast
  have pos: "(0::rat) < 2 powi e" by (simp add: zero_less_power_int)
  have "- 33 \<le> e"
  proof (rule ccontr)
    assume "\<not> - 33 \<le> e"
    then have "e \<le> - 34" by simp
    then have small: "(2::rat) powi e \<le> 2 powi (- 34)" by (rule power_int_increasing) simp
    have "(of_int m :: rat) < 2 ^ 53"
    proof -
      from m have "m < 2 ^ 53" by simp
      then have "(of_int m :: rat) < of_int (2 ^ 53)" by (simp only: of_int_less_iff)
      then show ?thesis by simp
    qed
    have "of_int m * 2 powi e < (2 ^ 53 :: rat) * 2 powi e"
      using \<open>(of_int m :: rat) < 2 ^ 53\<close> pos by (simp only: mult_strict_right_mono)
    also have "\<dots> \<le> 2 ^ 53 * 2 powi (- 34)"
      using small by (intro mult_left_mono) simp_all
    finally have "d < 2 ^ 19" by (simp add: d)
    with assms(2) show False by simp
  qed
  define j where "j = nat (e + 33)"
  with \<open>- 33 \<le> e\<close> have j: "e = int j - 33" by simp
  have "(2::rat) powi e = 2 ^ j / 2 ^ 33"
    unfolding j by (simp add: power_int_diff)
  then have "d = of_int (m * 2 ^ j) / 2 ^ 33" by (simp add: d)
  then show ?thesis ..
qed


text \<open>The largest double below 1 is \<open>1 - 2\<^sup>-\<^sup>5\<^sup>3\<close>.\<close>

lemma is_double_below_1:
  assumes "is_double r" "r < 1"
  shows "r \<le> 1 - 1 / 2 ^ 53"
proof -
  from assms(1) obtain m e where m: "\<bar>m\<bar> < 2 ^ 53" and r: "r = of_int m * 2 powi e"
    unfolding is_double_def by blast
  have pos: "(0::rat) < 2 powi e" by (simp add: zero_less_power_int)
  show ?thesis
  proof (cases "- 53 \<le> e")
    case True
    define j where "j = nat (e + 53)"
    with True have j: "e = int j - 53" by simp
    have "(2::rat) powi e = 2 ^ j / 2 ^ 53"
      unfolding j by (simp add: power_int_diff)
    then have r': "r = of_int (m * 2 ^ j) / 2 ^ 53" by (simp add: r)
    with assms(2) have "(of_int (m * 2 ^ j) :: rat) < 2 ^ 53" by simp
    then have "(of_int (m * 2 ^ j) :: rat) < of_int (2 ^ 53)" by simp
    then have "m * 2 ^ j < 2 ^ 53" by (simp only: of_int_less_iff)
    then have "m * 2 ^ j \<le> 2 ^ 53 - 1" by simp
    then have "(of_int (m * 2 ^ j) :: rat) \<le> of_int (2 ^ 53 - 1)" by (simp only: of_int_le_iff)
    then show ?thesis by (simp add: r' field_simps)
  next
    case False
    then have "e \<le> - 54" by simp
    then have "(2::rat) powi e \<le> 2 powi (- 54)" by (rule power_int_increasing) simp
    moreover have "(of_int m :: rat) \<le> 2 ^ 53"
    proof -
      from m have "m \<le> 2 ^ 53" by simp
      then have "(of_int m :: rat) \<le> of_int (2 ^ 53)" by (simp only: of_int_le_iff)
      then show ?thesis by simp
    qed
    ultimately have "of_int m * 2 powi e \<le> (2 ^ 53 :: rat) * 2 powi (- 54)"
      using pos by (intro mult_mono) simp_all
    then show ?thesis by (simp add: r)
  qed
qed

lemma is_double_product_bound: "is_double (900000 - 1 / 2 ^ 33)"
proof -
  have "is_double (of_int (900000 * 2 ^ 33 - 1) * 2 powi (- 33))"
    by (rule is_double_scaled) simp_all
  then show ?thesis by (simp add: field_simps)
qed

lemma is_double_sum_bound: "is_double (1000000 - 1 / 2 ^ 33)"
proof -
  have "is_double (of_int (1000000 * 2 ^ 33 - 1) * 2 powi (- 33))"
    by (rule is_double_scaled) simp_all
  then show ?thesis by (simp add: field_simps)
qed



lemma product_rounds_below:
  assumes "is_double r" "0 \<le> r" "r < 1" "nearest_double (r * 900000) p"
  shows "0 \<le> p \<and> p \<le> 900000 - 1 / 2 ^ 33"
proof
  have z: "is_double 0" using is_double_of_int [of 0] by simp
  have "0 \<le> r * 900000" using assms(2) by simp
  with assms(4) z show "0 \<le> p" by (rule nearest_ge)
next
  define q where "q = r * 900000"
  have q: "q \<le> 900000 - 900000 / 2 ^ 53"
    using is_double_below_1 [OF assms(1,3)] by (simp add: q_def)
  show "p \<le> 900000 - 1 / 2 ^ 33"
  proof (rule ccontr)
    assume "\<not> p \<le> 900000 - 1 / 2 ^ 33"
    then have above: "900000 - 1 / 2 ^ 33 < p" by simp
    from assms(4) have dp: "is_double p" by (simp add: nearest_double_def)
    have "2 ^ 19 \<le> p" using above by simp
    with dp obtain k :: int where k: "p = of_int k / 2 ^ 33"
      using is_double_grid by blast
    from above have "(900000 * 2 ^ 33 - 1 :: rat) < of_int k"
      by (simp add: k field_simps)
    then have "(of_int (900000 * 2 ^ 33 - 1) :: rat) < of_int k" by simp
    then have "900000 * 2 ^ 33 - 1 < k" by (simp only: of_int_less_iff)
    then have "900000 * 2 ^ 33 \<le> k" by simp
    then have "(of_int (900000 * 2 ^ 33) :: rat) \<le> of_int k" by (simp only: of_int_le_iff)
    then have p: "900000 \<le> p" by (simp add: k field_simps)
    from assms(4) is_double_product_bound
    have near: "\<bar>p - q\<bar> \<le> \<bar>900000 - 1 / 2 ^ 33 - q\<bar>"
      unfolding nearest_double_def q_def by blast
    have c: "(1::rat) / 2 ^ 33 < 2 * (900000 / 2 ^ 53)" "(0::rat) < 1 / 2 ^ 33" by simp_all
    from p q near c show False by linarith
  qed
qed

lemma sum_rounds_within:
  assumes "0 \<le> p" "p \<le> 900000 - 1 / 2 ^ 33" "nearest_double (100000 + p) s"
  shows "100000 \<le> s \<and> s \<le> 1000000 - 1 / 2 ^ 33"
proof
  have d: "is_double 100000" using is_double_of_int [of 100000] by simp
  have "100000 \<le> 100000 + p" using assms(1) by simp
  with assms(3) d show "100000 \<le> s" by (rule nearest_ge)
next
  have "100000 + p \<le> 1000000 - 1 / 2 ^ 33" using assms(2) by simp
  with assms(3) is_double_sum_bound show "s \<le> 1000000 - 1 / 2 ^ 33" by (rule nearest_le)
qed

lemma otp_number_range:
  assumes "ieee_otp x"
  shows "100000 \<le> otp_number x \<and> otp_number x \<le> 999999"
proof -
  let ?p = "fl x (math_random x * 900000)"
  let ?s = "fl x (100000 + ?p)"
  from assms have r: "is_double (math_random x)" "0 \<le> math_random x" "math_random x < 1"
    and np: "nearest_double (math_random x * 900000) ?p"
    and ns: "nearest_double (100000 + ?p) ?s"
    by (simp_all add: ieee_otp_def)
  from product_rounds_below [OF r np] have p: "0 \<le> ?p" "?p \<le> 900000 - 1 / 2 ^ 33" by simp_all
  from sum_rounds_within [OF p ns] have s: "100000 \<le> ?s" "?s \<le> 1000000 - 1 / 2 ^ 33" by simp_all
  from s(1) have "100000 \<le> \<lfloor>?s\<rfloor>" by (simp add: le_floor_iff)
  moreover from s(2) have "?s < 1000000" by simp
  then have "\<lfloor>?s\<rfloor> < 1000000" by (simp add: floor_less_iff)
  ultimately show ?thesis by (simp add: otp_number_def)
qed

lemma int_toString_nonneg: "0 \<le> i \<Longrightarrow> int_toString i = show_nat (nat i)"
  by (simp add: int_toString_def)

lemma ieee_otp_sample: "ieee_otp sample_extern"
proof -
  have half: "is_double (1 / 2)"
    using is_double_scaled [of 1 "- 1"] by simp
  have a: "is_double 450000" using is_double_of_int [of 450000] by simp
  have b: "is_double 550000" using is_double_of_int [of 550000] by simp
  show ?thesis
    using half nearest_self [OF a] nearest_self [OF b]
    by (simp add: ieee_otp_def sample_extern_def)
qed

subsection \<open>Log lines and body fields\<close>



lemma unprintable_no_text: "unprintable no_text"
  by (simp add: no_text_def)

lemma unprintable_truthy: "unprintable v \<Longrightarrow> truthy v"
  by (cases v) simp_all

lemma printable_string [simp]: "\<not> unprintable (JStr s)"
  by simp

lemma body_prop_Inr:
  "req_body req = Inr b \<Longrightarrow> props_of b = Some ps \<Longrightarrow> body_prop req k = get_prop ps k"
  by (simp add: body_prop_def)

lemma body_prop_truthy:
  assumes "truthy (body_prop req k)"
  obtains b ps where "req_body req = Inr b" "props_of b = Some ps"
proof -
  from assms obtain b where b: "req_body req = Inr b"
    by (cases "req_body req") (simp_all add: body_prop_def)
  with assms obtain ps where "props_of b = Some ps"
    by (cases "props_of b") (simp_all add: body_prop_def)
  with b that show thesis by blast
qed

lemma missing_body:
  assumes "missing req k"
  obtains b ps where "req_body req = Inr b" "props_of b = Some ps" "get_prop ps k = JUndefined"
proof -
  from assms obtain b where b: "req_body req = Inr b"
    by (cases "req_body req") (simp_all add: missing_def)
  with assms obtain ps where ps: "props_of b = Some ps"
    by (cases "props_of b") (simp_all add: missing_def)
  with assms b have "get_prop ps k = JUndefined"
    by (simp add: missing_def get_prop_def)
  with b ps that show thesis by blast
qed

lemma destructure_props: "props_of b = Some ps \<Longrightarrow> destructure b k = Inr ps"
  by (simp add: destructure_def)

lemma destructure_nullish: "props_of b = None \<Longrightarrow> \<exists>error. destructure b k = Inl error"
  by (simp add: destructure_def)

lemma status_error_middleware: "status (sent (error_middleware e)) = 500"
  by (simp add: error_middleware_def status_res_json)

subsection \<open>The verification handler\<close>

lemma otp_verify_props:
  assumes "props_of b = Some ps"
      and "truthy (get_prop ps ''phoneNumber'')" "truthy (get_prop ps ''code'')"
  shows "otp_verify x b =
           (if js_length (get_prop ps ''code'') = Inr (JNum (Finite 6)) then
              \<lparr>sent = res_json 200
                 [(lit ''success'', JBool True),
                  (lit ''message'', JStr (lit ''Phone number verified successfully'')),
                  (lit ''token'', JStr (lit ''auth_token_'' @ int_toString (int (date_now x)))),
                  (lit ''userPhoneNumber'', get_prop ps ''phoneNumber'')],
               invoked = []\<rparr>
            else
              \<lparr>sent = res_json 400
                 [(lit ''success'', JBool False),
                  (lit ''message'', JStr (lit ''Invalid verification code''))],
               invoked = []\<rparr>)"
proof -
  obtain len where len: "js_length (get_prop ps ''code'') = Inr len"
    using assms(3) by (cases "get_prop ps ''code''") simp_all
  show ?thesis
    using assms len by (simp add: otp_verify_def destructure_props Let_def)
qed

subsection \<open>Validation failures of the handlers\<close>



lemma calls_initiate_falsy:
  "props_of b = Some ps \<Longrightarrow>
   \<not> truthy (get_prop ps ''toNumber'') \<or> \<not> truthy (get_prop ps ''fromNumber'') \<Longrightarrow>
   calls_initiate env x req b =
     \<lparr>sent = res_json 400
        [(lit ''success'', JBool False),
         (lit ''message'', JStr (lit ''Both toNumber and fromNumber are required''))],
      invoked = []\<rparr>"
  by (auto simp add: calls_initiate_def destructure_props Let_def)


text \<open>
  Where the body parsers leave \<^verbatim>\<open>req.body\<close> undefined, the destructuring raises and the
  \<^verbatim>\<open>catch\<close> of each of the four handlers answers 500.
\<close>

lemma no_body_is_500:
  assumes "props_of b = None"
  shows "status (sent (otp_send env x b)) = 500"
    and "status (sent (otp_verify x b)) = 500"
    and "status (sent (calls_initiate env x req b)) = 500"
    and "status (sent (messages_send env x b)) = 500"
  using assms
  by (simp_all add: otp_send_def otp_verify_def calls_initiate_def messages_send_def
      destructure_def otp_send_failed_def otp_verify_failed_def calls_initiate_failed_def
      messages_send_failed_def status_res_json)

subsection \<open>The fallback and the end-call route\<close>

lemma dispatch_no_route:
  "\<forall>r\<in>set rs. \<not> route_takes x req r \<and> \<not> route_raises x req r \<Longrightarrow>
   dispatch rs env x req b = not_found req"
proof (induction rs)
  case Nil
  show ?case by simp
next
  case (Cons r rs)
  obtain m pat h where r: "r = (m, pat, h)" by (cases r)
  from Cons.prems have here: "\<not> route_takes x req (m, pat, h)" "\<not> route_raises x req (m, pat, h)"
    and rest: "\<forall>r\<in>set rs. \<not> route_takes x req r \<and> \<not> route_raises x req r"
    by (simp_all add: r)
  from here have
    "match_pattern x pat (req_path req) = Inr None
   \<or> (\<exists>ps. match_pattern x pat (req_path req) = Inr (Some ps)) \<and> \<not> handles_method m (req_method req)"
    by (auto simp add: route_takes_def route_raises_def split: sum.splits option.splits)
  then show ?case
    using Cons.IH [OF rest] by (auto simp add: r)
qed

lemma calls_end_falsy:
  "\<not> truthy (get_prop params ''callSid'') \<Longrightarrow>
   calls_end x params =
     \<lparr>sent = res_json 400
        [(lit ''success'', JBool False), (lit ''message'', JStr (lit ''Call SID is required''))],
      invoked = []\<rparr>"
  by (simp add: calls_end_def)

lemma match_param_segment:
  "match_param prefix p = Some seg \<Longrightarrow> seg \<noteq> [] \<and> slash \<notin> set seg"
  by (auto simp add: match_param_def Let_def split: if_splits)

lemma handle_calls_end:
  assumes "req_method req = DELETE" "match_param ''/api/calls/end/'' (req_path req) = Some seg"
      and "decodeURIComponent x seg = Some sid" "req_body req = Inr b"
  shows "handle env x req = calls_end x [(lit ''callSid'', JStr sid)]"
  using assms by (simp add: handle_def routes_def handles_method_def)

lemma lower_path_length: "map ascii_lower p = lit s \<Longrightarrow> length p = length s"
proof -
  assume "map ascii_lower p = lit s"
  then have "length (map ascii_lower p) = length (lit s)" by (rule arg_cong)
  then show ?thesis by simp
qed

subsection \<open>The provider calls of an initiation\<close>

lemma calls_initiate_invoked:
  "invoked (calls_initiate env x req b) =
     (case props_of b of
        None \<Rightarrow> []
      | Some ps \<Rightarrow>
          if truthy (get_prop ps ''toNumber'') \<and> truthy (get_prop ps ''fromNumber'')
             \<and> \<not> unprintable (get_prop ps ''fromNumber'') \<and> \<not> unprintable (get_prop ps ''toNumber'')
          then [CallsCreate (initiate_args env req (get_prop ps ''toNumber''))] else [])"
  by (auto simp add: calls_initiate_def destructure_def Let_def interpolate_def
      split: option.split sum.split)

lemma calls_initiate_200:
  "status (sent (calls_initiate env x req b)) = 200 \<Longrightarrow>
   invoked (calls_initiate env x req b) \<noteq> []"
  by (auto simp add: calls_initiate_def destructure_def Let_def interpolate_def
      calls_initiate_failed_def status_res_json
      split: option.splits sum.splits if_splits)

subsection \<open>The call-control handler\<close>

lemma calls_twiml_read:
  assumes "query_or_body req b ''To'' = Inr toNumber"
      and "query_or_body req b ''From'' = Inr fromIdentity"
  shows "calls_twiml env x req b =
     (if unprintable toNumber \<or> unprintable fromIdentity
      then error_middleware (type_error ''Cannot convert object to primitive value'')
      else case voice_response_error x (twiml_markup env toNumber) of
             Some error \<Rightarrow> error_middleware error
           | None \<Rightarrow>
               \<lparr>sent = \<lparr>status = 200, ctype = TextXml,
                         body = VoiceResponse (twiml_markup env toNumber)\<rparr>,
                invoked = []\<rparr>)"
  using assms by (simp add: calls_twiml_def interpolate_def)

lemma markup_error_middleware: "markup (sent (error_middleware e)) = []"
  by (simp add: markup_def error_middleware_def res_json_def)

lemma ctype_error_middleware: "ctype (sent (error_middleware e)) = ApplicationJson"
  by (simp add: error_middleware_def res_json_def)

subsection \<open>The token handler\<close>




subsection \<open>The OTP handler\<close>

lemma otp_send_truthy:
  fixes x :: extern and env :: process_env
  assumes "props_of b = Some ps" "truthy (get_prop ps ''phoneNumber'')"
  defines "otp \<equiv> int_toString (otp_number x)"
  defines "args \<equiv> \<lparr>msg_body = JStr (otp_sms_body otp),
                     msg_from = TWILIO_PHONE_NUMBER env,
                     msg_to = get_prop ps ''phoneNumber''\<rparr>"
  shows "otp_send env x b =
     \<lparr>sent =
        (case messages_create x args of
           Inl error \<Rightarrow> otp_send_failed error
         | Inr message \<Rightarrow>
             if unprintable (get_prop ps ''phoneNumber'')
             then otp_send_failed (type_error ''Cannot convert object to primitive value'')
             else res_json 200
                    [(lit ''success'', JBool True),
                     (lit ''message'', JStr (lit ''OTP sent successfully'')),
                     (lit ''requestId'', res_sid message),
                     (lit ''otp'', JStr otp)]),
      invoked = [MessagesCreate args]\<rparr>"
  using assms(1,2)
  by (simp add: otp_send_def destructure_props Let_def otp_def args_def interpolate_def
      split: sum.split)

lemma otp_send_failed_reads:
  "status (otp_send_failed error) = 500"
  "body_field (otp_send_failed error) ''success'' = JBool False"
  "body_field (otp_send_failed error) ''otp'' = JUndefined"
  by (simp_all add: otp_send_failed_def status_res_json body_field_res_json get_prop_Cons
      get_prop_def)

subsection \<open>Requests that reach no handler\<close>

lemma invoked_error_middleware: "invoked (error_middleware e) = []"
  by (simp add: error_middleware_def)

lemma handle_parse_error:
  "req_method req \<noteq> OPTIONS \<Longrightarrow> req_body req = Inl error \<Longrightarrow>
   handle env x req = error_middleware error"
  by (simp add: handle_def)

text \<open>
  A request that no route takes is not always answered by the fallback: Express decodes
  a path parameter when the path matches, whatever the method, and a \<^verbatim>\<open>PUT\<close> to
  \<^verbatim>\<open>/api/calls/end/%\<close> ends in the error middleware.
\<close>

lemma handle_decode_failed:
  assumes "req_method req = PUT" "req_body req = Inr b"
      and "match_param ''/api/calls/end/'' (req_path req) = Some seg"
      and "decodeURIComponent x seg = None"
  shows "handle env x req = error_middleware (decode_failed seg)"
    and "\<not> list_ex (route_takes x req) routes"
  using assms
  by (simp_all add: handle_def routes_def handles_method_def route_takes_def)

lemma handle_no_route:
  assumes "req_method req \<noteq> OPTIONS" "req_body req = Inr b"
      and "\<forall>r\<in>set routes. \<not> route_takes x req r \<and> \<not> route_raises x req r"
  shows "handle env x req = not_found req"
proof -
  have "handle env x req = dispatch routes env x req b"
    using assms(1,2) by (simp add: handle_def)
  also have "\<dots> = not_found req"
    using assms(3) by (rule dispatch_no_route)
  finally show ?thesis .
qed

lemma not_found_reads:
  "status (sent (not_found req)) = 404"
  "ctype (sent (not_found req)) = ApplicationJson"
  "body_field (sent (not_found req)) ''success'' = JBool False"
  "body_field (sent (not_found req)) ''path'' = JStr (req_path req)"
  "invoked (not_found req) = []"
proof -
  show "status (sent (not_found req)) = 404"
    by (simp add: not_found_def status_res_json)
  show "ctype (sent (not_found req)) = ApplicationJson"
    by (simp add: not_found_def res_json_def)
  show "body_field (sent (not_found req)) ''success'' = JBool False"
    by (simp add: not_found_def body_field_res_json get_prop_Cons)
  show "body_field (sent (not_found req)) ''path'' = JStr (req_path req)"
    by (simp add: not_found_def body_field_res_json get_prop_Cons)
  show "invoked (not_found req) = []"
    by (simp add: not_found_def)
qed

lemma no_end_route:
  assumes "map ascii_lower (req_path req) = lit ''/api/calls/end/''
         \<or> map ascii_lower (req_path req) = lit ''/api/calls/end''"
  shows "\<forall>r\<in>set routes. \<not> route_takes x req r \<and> \<not> route_raises x req r"
  using assms
proof (elim disjE)
  assume a: "map ascii_lower (req_path req) = lit ''/api/calls/end/''"
  from lower_path_length [OF a] have "drop 15 (req_path req) = []" by simp
  then show ?thesis using a
    by (simp add: routes_def route_takes_def route_raises_def handles_method_def
        match_static_iff match_static_root match_param_lower lower_case_def take_lit)
next
  assume a: "map ascii_lower (req_path req) = lit ''/api/calls/end''"
  then show ?thesis
    by (simp add: routes_def route_takes_def route_raises_def handles_method_def
        match_static_iff match_static_root match_param_lower lower_case_def take_lit)
qed

section \<open>The claims\<close>

subsection \<open>C1: the call-control markup dials or apologises\<close>

text \<open>
  Claim C1 says that every request to \<^verbatim>\<open>POST /api/calls/twiml\<close> is answered with
  \<^verbatim>\<open>text/xml\<close> markup: exactly one dial instruction for the destination when one is
  present (\<^verbatim>\<open>To\<close> of the query, else of the body), with answer-on-bridge, a timeout of
  30 seconds and the system number as caller ID, and no spoken sentence; exactly one spoken
  apology and no dial instruction when it is absent. The handler builds exactly that, but
  it first logs \<^verbatim>\<open>To\<close> and \<^verbatim>\<open>From\<close> in template literals (lines 248 and 249) and
  has no \<^verbatim>\<open>try\<close>. What the code does, for a request whose \<^verbatim>\<open>To\<close> and
  \<^verbatim>\<open>From\<close> can be read:
  \<^item> when one of the two does not convert to a string, the error middleware answers 500
    with a JSON body, and there is no markup;
  \<^item> when both convert and the library raises while it builds the markup, the same;
  \<^item> otherwise the answer is 200, \<^verbatim>\<open>text/xml\<close>, with the markup the claim describes,
    presence of the destination being its truthiness.
\<close>

theorem twiml_answer:
  fixes req :: request
  assumes "req_method req = POST" "match_static ''/api/calls/twiml'' (req_path req)"
      and "req_body req = Inr b"
      and "query_or_body req b ''To'' = Inr toNumber"
      and "query_or_body req b ''From'' = Inr fromIdentity"
  shows "(unprintable toNumber \<or> unprintable fromIdentity \<longrightarrow>
            handle env x req =
              error_middleware (type_error ''Cannot convert object to primitive value'')
          \<and> status (sent (handle env x req)) = 500
          \<and> ctype (sent (handle env x req)) = ApplicationJson
          \<and> dial_verbs (markup (sent (handle env x req))) = []
          \<and> say_verbs (markup (sent (handle env x req))) = [])
       \<and> (\<forall>error. \<not> unprintable toNumber \<and> \<not> unprintable fromIdentity
            \<and> voice_response_error x (twiml_markup env toNumber) = Some error \<longrightarrow>
            handle env x req = error_middleware error
          \<and> status (sent (handle env x req)) = 500)
       \<and> (\<not> unprintable toNumber \<and> \<not> unprintable fromIdentity
            \<and> voice_response_error x (twiml_markup env toNumber) = None \<longrightarrow>
            status (sent (handle env x req)) = 200
          \<and> ctype (sent (handle env x req)) = TextXml
          \<and> invoked (handle env x req) = []
          \<and> (if truthy toNumber then
                dial_verbs (markup (sent (handle env x req))) =
                  [(\<lparr>callerId = TWILIO_PHONE_NUMBER env, answerOnBridge = True, timeout = 30\<rparr>,
                    [Number toNumber])]
              \<and> say_verbs (markup (sent (handle env x req))) = []
              else
                dial_verbs (markup (sent (handle env x req))) = []
              \<and> say_verbs (markup (sent (handle env x req))) =
                  [(\<lparr>voice = lit ''alice'', language = lit ''en-US''\<rparr>,
                    lit ''No destination number was provided.'')]))"
proof -
  have h: "handle env x req = calls_twiml env x req b"
    using assms(1,2,3) by (rule handle_calls_twiml)
  note c = calls_twiml_read [OF assms(4,5), of env x]
  have bad: "calls_twiml env x req b =
      error_middleware (type_error ''Cannot convert object to primitive value'')"
    if "unprintable toNumber \<or> unprintable fromIdentity"
    using that by (simp add: c)
  have lib: "calls_twiml env x req b = error_middleware error"
    if "\<not> unprintable toNumber" "\<not> unprintable fromIdentity"
       "voice_response_error x (twiml_markup env toNumber) = Some error" for error
    using that by (simp add: c)
  have good: "calls_twiml env x req b =
      \<lparr>sent = \<lparr>status = 200, ctype = TextXml, body = VoiceResponse (twiml_markup env toNumber)\<rparr>,
       invoked = []\<rparr>"
    if "\<not> unprintable toNumber" "\<not> unprintable fromIdentity"
       "voice_response_error x (twiml_markup env toNumber) = None"
    using that by (simp add: c)
  have one: "unprintable toNumber \<or> unprintable fromIdentity \<longrightarrow>
            calls_twiml env x req b =
              error_middleware (type_error ''Cannot convert object to primitive value'')
          \<and> status (sent (calls_twiml env x req b)) = 500
          \<and> ctype (sent (calls_twiml env x req b)) = ApplicationJson
          \<and> dial_verbs (markup (sent (calls_twiml env x req b))) = []
          \<and> say_verbs (markup (sent (calls_twiml env x req b))) = []"
    using bad
    by (simp add: status_error_middleware ctype_error_middleware markup_error_middleware)
  have two: "\<forall>error. \<not> unprintable toNumber \<and> \<not> unprintable fromIdentity
            \<and> voice_response_error x (twiml_markup env toNumber) = Some error \<longrightarrow>
            calls_twiml env x req b = error_middleware error
          \<and> status (sent (calls_twiml env x req b)) = 500"
    using lib by (simp add: status_error_middleware)
  have three: "\<not> unprintable toNumber \<and> \<not> unprintable fromIdentity
            \<and> voice_response_error x (twiml_markup env toNumber) = None \<longrightarrow>
            status (sent (calls_twiml env x req b)) = 200
          \<and> ctype (sent (calls_twiml env x req b)) = TextXml
          \<and> invoked (calls_twiml env x req b) = []
          \<and> (if truthy toNumber then
                dial_verbs (markup (sent (calls_twiml env x req b))) =
                  [(\<lparr>callerId = TWILIO_PHONE_NUMBER env, answerOnBridge = True, timeout = 30\<rparr>,
                    [Number toNumber])]
              \<and> say_verbs (markup (sent (calls_twiml env x req b))) = []
              else
                dial_verbs (markup (sent (calls_twiml env x req b))) = []
              \<and> say_verbs (markup (sent (calls_twiml env x req b))) =
                  [(\<lparr>voice = lit ''alice'', language = lit ''en-US''\<rparr>,
                    lit ''No destination number was provided.'')])"
    using good by (simp add: markup_def twiml_markup_def)
  show ?thesis
    unfolding h using one two three by (intro conjI)
qed

theorem twiml_answer_witness:
  "unprintable no_text \<and>
   status (sent (handle sample_env sample_extern
     (sample_request POST ''/api/calls/twiml'' []
        (JObj [(lit ''To'', JStr (lit ''+15551234567'')), (lit ''From'', no_text)])))) = 500 \<and>
   ctype (sent (handle sample_env sample_extern
     (sample_request POST ''/api/calls/twiml'' []
        (JObj [(lit ''To'', JStr (lit ''+15551234567'')), (lit ''From'', no_text)])))) =
     ApplicationJson \<and>
   dial_verbs (markup (sent (handle sample_env sample_extern
     (sample_request POST ''/api/calls/twiml'' []
        (JObj [(lit ''To'', JStr (lit ''+15551234567'')), (lit ''From'', no_text)]))))) = []"
proof -
  let ?b = "JObj [(lit ''To'', JStr (lit ''+15551234567'')), (lit ''From'', no_text)]"
  let ?req = "sample_request POST ''/api/calls/twiml'' [] ?b"
  have m: "req_method ?req = POST" by simp
  have p: "match_static ''/api/calls/twiml'' (req_path ?req)"
    by (simp add: match_static_self lower_case_def)
  have b: "req_body ?req = Inr ?b" by simp
  have t: "query_or_body ?req ?b ''To'' = Inr (JStr (lit ''+15551234567''))"
    by (simp add: query_or_body_def read_member_def get_prop_Cons get_prop_def)
  have f: "query_or_body ?req ?b ''From'' = Inr no_text"
    by (simp add: query_or_body_def read_member_def get_prop_Cons get_prop_def)
  show ?thesis
    using twiml_answer [OF m p b t f, of sample_env sample_extern] unprintable_no_text
    by (simp add: status_error_middleware ctype_error_middleware markup_error_middleware)
qed

subsection \<open>C2: OTP verification accepts exactly the codes of length 6\<close>



subsection \<open>C3: a missing required field is a 400 without provider call\<close>



subsection \<open>C4: ending a call without a call SID\<close>

text \<open>
  Claim C4 says that a \<^verbatim>\<open>DELETE /api/calls/end/:callSid\<close> request whose call SID is
  absent is answered 400 with \<^verbatim>\<open>success: false\<close>, without provider call. The handler
  has a guard that does so (\<open>calls_end_falsy\<close>), but the router only runs the handler
  with the text of a non-empty path segment as \<^verbatim>\<open>callSid\<close> (\<open>handle_calls_end\<close>,
  \<open>match_param_segment\<close>). What the code does with an absent call SID: a \<^verbatim>\<open>DELETE\<close>
  request to \<^verbatim>\<open>/api/calls/end/\<close> or \<^verbatim>\<open>/api/calls/end\<close> is taken by no route. When it
  passed the body parsers the 404 fallback answers it, with the requested path in the
  body; when a body parser raised, the error middleware answers 500. The status is never
  400, and no provider operation is invoked.
\<close>

theorem end_call_without_sid_is_404:
  assumes "req_method req = DELETE"
      and "map ascii_lower (req_path req) = lit ''/api/calls/end/''
         \<or> map ascii_lower (req_path req) = lit ''/api/calls/end''"
  shows "(parsed req \<longrightarrow>
            handle env x req =
              \<lparr>sent = res_json 404
                 [(lit ''success'', JBool False),
                  (lit ''message'', JStr (lit ''Endpoint not found'')),
                  (lit ''path'', JStr (req_path req))],
               invoked = []\<rparr>
          \<and> status (sent (handle env x req)) = 404)
       \<and> (\<forall>error. req_body req = Inl error \<longrightarrow>
            handle env x req = error_middleware error
          \<and> status (sent (handle env x req)) = 500)
       \<and> status (sent (handle env x req)) \<noteq> 400
       \<and> invoked (handle env x req) = []"
proof -
  have opt: "req_method req \<noteq> OPTIONS" using assms(1) by simp
  have none: "\<forall>r\<in>set routes. \<not> route_takes x req r \<and> \<not> route_raises x req r"
    using assms(2) by (rule no_end_route)
  show ?thesis
  proof (cases "req_body req")
    case (Inl error)
    have h: "handle env x req = error_middleware error"
      using opt Inl by (rule handle_parse_error)
    show ?thesis
      by (simp add: h Inl parsed_def status_error_middleware invoked_error_middleware)
  next
    case (Inr b)
    have h: "handle env x req = not_found req"
      using opt Inr none by (rule handle_no_route)
    show ?thesis
      by (simp add: h Inr not_found_reads) (simp add: not_found_def)
  qed
qed

theorem end_call_without_sid_is_404_witness:
  "parsed (sample_request DELETE ''/api/calls/end/'' [] (JObj [])) \<and>
   status (sent (handle sample_env sample_extern
     (sample_request DELETE ''/api/calls/end/'' [] (JObj [])))) = 404 \<and>
   invoked (handle sample_env sample_extern
     (sample_request DELETE ''/api/calls/end/'' [] (JObj []))) = []"
proof -
  let ?req = "sample_request DELETE ''/api/calls/end/'' [] (JObj [])"
  have m: "req_method ?req = DELETE" by simp
  have l: "map ascii_lower (lit ''/api/calls/end/'') = lit ''/api/calls/end/''"
    by (rule lower_lit) (simp add: lower_case_def)
  have p: "map ascii_lower (req_path ?req) = lit ''/api/calls/end/''
         \<or> map ascii_lower (req_path ?req) = lit ''/api/calls/end''"
    by (simp add: l)
  have b: "parsed ?req" by (simp add: parsed_def sample_request_def)
  note w = end_call_without_sid_is_404 [OF m p, of sample_env sample_extern]
  from w [THEN conjunct1] b
  have "status (sent (handle sample_env sample_extern ?req)) = 404" by blast
  moreover from w have "invoked (handle sample_env sample_extern ?req) = []" by blast
  ultimately show ?thesis using b by blast
qed

subsection \<open>C5: the origin of an initiated call\<close>

text \<open>
  Claim C5. For a request to \<^verbatim>\<open>POST /api/calls/initiate\<close>: the only provider operation
  the handler ever invokes is the creation of one call, to \<^verbatim>\<open>toNumber\<close>, whose
  \<^verbatim>\<open>from\<close> is the configured system phone number; a successful initiation (status 200)
  has created exactly that call. \<^verbatim>\<open>fromNumber\<close> is required (a request without it is
  answered 400 and creates no call) and decides, with \<^verbatim>\<open>toNumber\<close>, whether the call is
  created at all, but it has no effect on the origin: whatever the body, the \<^verbatim>\<open>from\<close>
  of a call the handler creates is the system number.
\<close>

theorem initiate_call_origin_is_system_number:
  fixes req :: request and env :: process_env
  defines "toNumber \<equiv> body_prop req ''toNumber''"
      and "fromNumber \<equiv> body_prop req ''fromNumber''"
  defines "call \<equiv>
     CallsCreate
       \<lparr>call_url = base_url req @ lit ''/api/calls/twiml'',
        call_to = toNumber,
        call_from = TWILIO_PHONE_NUMBER env,
        call_statusCallback = base_url req @ lit ''/api/calls/status'',
        call_statusCallbackEvent =
          [lit ''initiated'', lit ''ringing'', lit ''answered'', lit ''completed'']\<rparr>"
  assumes "req_method req = POST" "match_static ''/api/calls/initiate'' (req_path req)"
  shows "invoked (handle env x req) =
           (if truthy toNumber \<and> truthy fromNumber
               \<and> \<not> unprintable fromNumber \<and> \<not> unprintable toNumber
            then [call] else [])
       \<and> (status (sent (handle env x req)) = 200 \<longrightarrow> invoked (handle env x req) = [call])
       \<and> (missing req ''fromNumber'' \<longrightarrow>
            status (sent (handle env x req)) = 400 \<and> invoked (handle env x req) = [])
       \<and> (\<forall>body. \<forall>c \<in> set (invoked (handle env x (req\<lparr>req_body := body\<rparr>))).
            \<exists>a. c = CallsCreate a \<and> call_from a = TWILIO_PHONE_NUMBER env)"
proof -
  have inv: "invoked (handle env x r) =
           (if truthy (body_prop r ''toNumber'') \<and> truthy (body_prop r ''fromNumber'')
               \<and> \<not> unprintable (body_prop r ''fromNumber'')
               \<and> \<not> unprintable (body_prop r ''toNumber'')
            then [CallsCreate (initiate_args env r (body_prop r ''toNumber''))] else [])"
    if m: "req_method r = POST" and p: "match_static ''/api/calls/initiate'' (req_path r)"
    for r :: request
  proof (cases "req_body r")
    case (Inl error)
    then show ?thesis using m
      by (simp add: handle_def error_middleware_def body_prop_def)
  next
    case (Inr b)
    have "handle env x r = calls_initiate env x r b"
      using m p Inr by (rule handle_calls_initiate)
    then show ?thesis using Inr
      by (simp add: calls_initiate_invoked body_prop_def split: option.split)
  qed
  have c: "CallsCreate (initiate_args env req toNumber) = call"
    by (simp add: call_def initiate_args_def)
  have first: "invoked (handle env x req) =
           (if truthy toNumber \<and> truthy fromNumber
               \<and> \<not> unprintable fromNumber \<and> \<not> unprintable toNumber
            then [call] else [])"
    using inv [OF assms(4,5)] by (simp add: toNumber_def fromNumber_def c [unfolded toNumber_def])
  have second: "invoked (handle env x req) = [call]" if s: "status (sent (handle env x req)) = 200"
  proof (cases "req_body req")
    case (Inl error)
    with s assms(4) show ?thesis
      by (simp add: handle_def status_error_middleware)
  next
    case (Inr b)
    have h: "handle env x req = calls_initiate env x req b"
      using assms(4,5) Inr by (rule handle_calls_initiate)
    from s have "invoked (handle env x req) \<noteq> []"
      unfolding h by (rule calls_initiate_200)
    with first show ?thesis by (simp split: if_splits)
  qed
  have third: "status (sent (handle env x req)) = 400 \<and> invoked (handle env x req) = []"
    if "missing req ''fromNumber''"
  proof -
    from that obtain b ps where b: "req_body req = Inr b" and ps: "props_of b = Some ps"
      and f: "get_prop ps ''fromNumber'' = JUndefined"
      by (rule missing_body)
    have "handle env x req = calls_initiate env x req b"
      using assms(4,5) b by (rule handle_calls_initiate)
    then show ?thesis
      using f by (simp add: calls_initiate_falsy [OF ps] status_res_json)
  qed
  have fourth: "\<exists>a. c = CallsCreate a \<and> call_from a = TWILIO_PHONE_NUMBER env"
    if "c \<in> set (invoked (handle env x (req\<lparr>req_body := body\<rparr>)))" for body c
  proof -
    let ?r = "req\<lparr>req_body := body\<rparr>"
    have "req_method ?r = POST" "match_static ''/api/calls/initiate'' (req_path ?r)"
      using assms(4,5) by simp_all
    from inv [OF this] that
    have "c = CallsCreate (initiate_args env ?r (body_prop ?r ''toNumber''))"
      by (simp split: if_splits)
    then show ?thesis by (simp add: initiate_args_def)
  qed
  show ?thesis
    using first second third fourth by blast
qed


theorem initiate_call_origin_is_system_number_witness:
  "status (sent (handle sample_env sample_extern
     (sample_request POST ''/api/calls/initiate'' []
        (JObj [(lit ''toNumber'', JStr (lit ''+15551234567'')),
               (lit ''fromNumber'', JStr (lit ''+15557654321''))])))) = 200 \<and>
   invoked (handle sample_env sample_extern
     (sample_request POST ''/api/calls/initiate'' []
        (JObj [(lit ''toNumber'', JStr (lit ''+15551234567'')),
               (lit ''fromNumber'', JStr (lit ''+15557654321''))]))) =
     [CallsCreate
        \<lparr>call_url = lit ''https://api.example.com/api/calls/twiml'',
         call_to = JStr (lit ''+15551234567''),
         call_from = JStr (lit ''+15550000000''),
         call_statusCallback = lit ''https://api.example.com/api/calls/status'',
         call_statusCallbackEvent =
           [lit ''initiated'', lit ''ringing'', lit ''answered'', lit ''completed'']\<rparr>]"
proof -
  let ?b = "JObj [(lit ''toNumber'', JStr (lit ''+15551234567'')),
               (lit ''fromNumber'', JStr (lit ''+15557654321''))]"
  let ?req = "sample_request POST ''/api/calls/initiate'' [] ?b"
  have m: "req_method ?req = POST" by simp
  have p: "match_static ''/api/calls/initiate'' (req_path ?req)"
    by (simp add: match_static_self lower_case_def)
  have f: "body_prop ?req ''toNumber'' = JStr (lit ''+15551234567'')"
    "body_prop ?req ''fromNumber'' = JStr (lit ''+15557654321'')"
    by (simp_all add: body_prop_def get_prop_Cons)
  have u: "base_url ?req = lit ''https://api.example.com''"
    by (simp add: base_url_def sample_request_def lit_append [symmetric])
  have h: "handle sample_env sample_extern ?req = calls_initiate sample_env sample_extern ?req ?b"
    using m p by (rule handle_calls_initiate) simp
  have s: "status (sent (handle sample_env sample_extern ?req)) = 200"
    unfolding h
    by (simp add: calls_initiate_def destructure_def Let_def interpolate_def get_prop_Cons
        sample_extern_def status_res_json)
  note w = initiate_call_origin_is_system_number [OF m p, of sample_env sample_extern]
  from w [THEN conjunct2, THEN conjunct1] s
  have "invoked (handle sample_env sample_extern ?req) =
     [CallsCreate
        \<lparr>call_url = base_url ?req @ lit ''/api/calls/twiml'',
         call_to = body_prop ?req ''toNumber'',
         call_from = TWILIO_PHONE_NUMBER sample_env,
         call_statusCallback = base_url ?req @ lit ''/api/calls/status'',
         call_statusCallbackEvent =
           [lit ''initiated'', lit ''ringing'', lit ''answered'', lit ''completed'']\<rparr>]"
    by blast
  then show ?thesis
    using s by (simp add: f u lit_append [symmetric] sample_env_def)
qed

subsection \<open>C6: the code of an OTP send\<close>

text \<open>
  Claim C6 says that for every request to \<^verbatim>\<open>POST /api/otp/send\<close> with a phone number
  present, and every value of the random source, the generated code is a string of exactly
  6 ASCII digits with a value in \<open>[100000, 999999]\<close>, and that this same code is in the SMS
  body sent to the provider and in the \<^verbatim>\<open>otp\<close> field of the response. The first half holds,
  with the product and the sum of line 101 rounded to a nearest double, and the code is in
  the body of the one message handed to the provider. The response carries it only when
  the provider accepts the message and the phone number converts to a string: line 109
  logs the phone number in a template literal after the message is created, so for a
  phone number such as \<^verbatim>\<open>{"toString": 1}\<close> that the provider accepts, the SMS is sent and
  the \<^verbatim>\<open>catch\<close> answers 500 without an \<^verbatim>\<open>otp\<close> field. Presence of the phone number is
  its truthiness.
\<close>

theorem otp_send_code_and_answer:
  fixes req :: request and x :: extern and env :: process_env
  defines "phoneNumber \<equiv> body_prop req ''phoneNumber''"
      and "otp \<equiv> int_toString (otp_number x)"
  defines "args \<equiv>
     \<lparr>msg_body = JStr (lit ''Your TORRZ verification code is: '' @ otp @ lit ''. Valid for 10 minutes.''),
      msg_from = TWILIO_PHONE_NUMBER env,
      msg_to = phoneNumber\<rparr>"
  assumes "req_method req = POST" "match_static ''/api/otp/send'' (req_path req)"
      and "truthy phoneNumber" "ieee_otp x"
  shows "length otp = 6
       \<and> list_all is_digit_unit otp
       \<and> int (digits_value otp) = otp_number x
       \<and> 100000 \<le> digits_value otp \<and> digits_value otp \<le> 999999
       \<and> invoked (handle env x req) = [MessagesCreate args]
       \<and> (case messages_create x args of
             Inl error \<Rightarrow> sent (handle env x req) = otp_send_failed error
           | Inr message \<Rightarrow>
               if unprintable phoneNumber then
                 sent (handle env x req) =
                   otp_send_failed (type_error ''Cannot convert object to primitive value'')
               \<and> status (sent (handle env x req)) = 500
               \<and> body_field (sent (handle env x req)) ''otp'' = JUndefined
               else
                 sent (handle env x req) =
                   res_json 200
                     [(lit ''success'', JBool True),
                      (lit ''message'', JStr (lit ''OTP sent successfully'')),
                      (lit ''requestId'', res_sid message),
                      (lit ''otp'', JStr otp)])"
proof -
  from assms(6) obtain b ps where b: "req_body req = Inr b" and ps: "props_of b = Some ps"
    unfolding phoneNumber_def by (rule body_prop_truthy)
  have h: "handle env x req = otp_send env x b"
    using assms(4,5) b by (rule handle_otp_send)
  have pn: "phoneNumber = get_prop ps ''phoneNumber''"
    by (simp add: phoneNumber_def body_prop_Inr [OF b ps])
  from otp_number_range [OF assms(7)]
  have lo: "100000 \<le> otp_number x" and hi: "otp_number x \<le> 999999" by simp_all
  define n where "n = nat (otp_number x)"
  have n: "int n = otp_number x" "10 ^ 5 \<le> n" "n < 10 ^ Suc 5"
    using lo hi by (simp_all add: n_def)
  have otp: "otp = show_nat n"
    using lo by (simp add: otp_def n_def int_toString_nonneg)
  have len: "length otp = 6"
    unfolding otp using length_show_nat [OF n(2,3)] by simp
  have dig: "list_all is_digit_unit otp"
    unfolding otp by (rule digits_show_nat)
  have val: "digits_value otp = n"
    unfolding otp by (rule digits_value_show_nat)
  have rng: "100000 \<le> digits_value otp \<and> digits_value otp \<le> 999999"
    unfolding val using n(2,3) by simp
  have a: "\<lparr>msg_body = JStr (otp_sms_body (int_toString (otp_number x))),
            msg_from = TWILIO_PHONE_NUMBER env,
            msg_to = get_prop ps ''phoneNumber''\<rparr> = args"
    by (simp add: args_def otp_def pn otp_sms_body_def)
  have t: "truthy (get_prop ps ''phoneNumber'')"
    using assms(6) by (simp add: pn)
  note s = otp_send_truthy [OF ps t, of env x, unfolded a, folded otp_def]
  have inv: "invoked (otp_send env x b) = [MessagesCreate args]"
    by (simp add: s)
  have snt: "(case messages_create x args of
             Inl error \<Rightarrow> sent (otp_send env x b) = otp_send_failed error
           | Inr message \<Rightarrow>
               if unprintable phoneNumber then
                 sent (otp_send env x b) =
                   otp_send_failed (type_error ''Cannot convert object to primitive value'')
               \<and> status (sent (otp_send env x b)) = 500
               \<and> body_field (sent (otp_send env x b)) ''otp'' = JUndefined
               else
                 sent (otp_send env x b) =
                   res_json 200
                     [(lit ''success'', JBool True),
                      (lit ''message'', JStr (lit ''OTP sent successfully'')),
                      (lit ''requestId'', res_sid message),
                      (lit ''otp'', JStr otp)])"
    by (simp add: s pn otp_send_failed_reads split: sum.split)
  show ?thesis
    unfolding h using len dig val n(1) rng inv snt by simp
qed

theorem otp_send_code_and_answer_witness:
  "truthy no_text \<and> ieee_otp sample_extern \<and> unprintable no_text \<and>
   invoked (handle sample_env sample_extern
     (sample_request POST ''/api/otp/send'' [] (JObj [(lit ''phoneNumber'', no_text)]))) =
     [MessagesCreate
        \<lparr>msg_body = JStr (lit ''Your TORRZ verification code is: 550000. Valid for 10 minutes.''),
         msg_from = JStr (lit ''+15550000000''),
         msg_to = no_text\<rparr>] \<and>
   status (sent (handle sample_env sample_extern
     (sample_request POST ''/api/otp/send'' [] (JObj [(lit ''phoneNumber'', no_text)])))) = 500 \<and>
   body_field (sent (handle sample_env sample_extern
     (sample_request POST ''/api/otp/send'' [] (JObj [(lit ''phoneNumber'', no_text)]))))
     ''otp'' = JUndefined"
proof -
  let ?req = "sample_request POST ''/api/otp/send'' [] (JObj [(lit ''phoneNumber'', no_text)])"
  have m: "req_method ?req = POST" by simp
  have p: "match_static ''/api/otp/send'' (req_path ?req)"
    by (simp add: match_static_self lower_case_def)
  have f: "body_prop ?req ''phoneNumber'' = no_text"
    by (simp add: body_prop_def get_prop_Cons)
  have t: "truthy (body_prop ?req ''phoneNumber'')"
    unfolding f by (rule unprintable_truthy) (rule unprintable_no_text)
  have n: "otp_number sample_extern = 550000"
    by (simp add: otp_number_def sample_extern_def)
  have o: "int_toString (otp_number sample_extern) = lit ''550000''"
    unfolding n by (simp add: int_toString_def show_nat.simps digit_unit_def lit_def)
  have c: "messages_create sample_extern a =
      Inr \<lparr>res_sid = JStr (lit ''SM01''), res_status = JStr (lit ''queued'')\<rparr>" for a
    by (simp add: sample_extern_def)
  note w = otp_send_code_and_answer [OF m p t ieee_otp_sample, of sample_env]
  from w have i: "invoked (handle sample_env sample_extern ?req) =
     [MessagesCreate
        \<lparr>msg_body = JStr (lit ''Your TORRZ verification code is: 550000. Valid for 10 minutes.''),
         msg_from = JStr (lit ''+15550000000''),
         msg_to = no_text\<rparr>]"
    by (simp add: o f sample_env_def lit_append [symmetric])
  from w have s: "status (sent (handle sample_env sample_extern ?req)) = 500
     \<and> body_field (sent (handle sample_env sample_extern ?req)) ''otp'' = JUndefined"
    by (simp add: o f c unprintable_no_text otp_send_failed_reads)
  show ?thesis
    using ieee_otp_sample unprintable_no_text unprintable_truthy [OF unprintable_no_text] i s
    by simp
qed

subsection \<open>C7: the answer to a token request\<close>



subsection \<open>C8: requests that match no route\<close>




subsection \<open>C10: the verification reads only the length property\<close>

text \<open>
  Claim C10. For a request to \<^verbatim>\<open>POST /api/otp/verify\<close> (with a truthy
  \<^verbatim>\<open>phoneNumber\<close>, so that the handler gets as far as the code), acceptance is decided
  by the \<^verbatim>\<open>length\<close> property of the submitted code alone: every value whose
  \<^verbatim>\<open>length\<close> is 6, a 6-element array included, is accepted; a JSON number, which has
  no \<^verbatim>\<open>length\<close>, and every other truthy value whose \<^verbatim>\<open>length\<close> is not 6 is
  rejected with 400 and the message \<^verbatim>\<open>Invalid verification code\<close>.
\<close>

theorem otp_verify_reads_only_length:
  fixes req :: request
  defines "code \<equiv> body_prop req ''code''"
  defines "rejected \<equiv>
     \<lparr>sent = res_json 400
        [(lit ''success'', JBool False),
         (lit ''message'', JStr (lit ''Invalid verification code''))],
      invoked = []\<rparr>"
  assumes "req_method req = POST" "match_static ''/api/otp/verify'' (req_path req)"
      and "truthy (body_prop req ''phoneNumber'')"
  shows "(js_length code = Inr (JNum (Finite 6)) \<longrightarrow>
            status (sent (handle env x req)) = 200
          \<and> body_field (sent (handle env x req)) ''success'' = JBool True)
       \<and> (\<forall>xs. code = JArr xs \<and> length xs = 6 \<longrightarrow>
            status (sent (handle env x req)) = 200
          \<and> body_field (sent (handle env x req)) ''success'' = JBool True)
       \<and> (\<forall>n. code = JNum n \<and> truthy code \<longrightarrow> handle env x req = rejected)
       \<and> (truthy code \<and> js_length code \<noteq> Inr (JNum (Finite 6)) \<longrightarrow>
            handle env x req = rejected)"
proof -
  from assms(5) obtain b ps where b: "req_body req = Inr b" and ps: "props_of b = Some ps"
    by (rule body_prop_truthy)
  have h: "handle env x req = otp_verify x b"
    using assms(3,4) b by (rule handle_otp_verify)
  have p: "truthy (get_prop ps ''phoneNumber'')" and c: "code = get_prop ps ''code''"
    using assms(5) by (simp_all add: code_def body_prop_Inr [OF b ps])
  have accept: "status (sent (otp_verify x b)) = 200
          \<and> body_field (sent (otp_verify x b)) ''success'' = JBool True"
    if "js_length code = Inr (JNum (Finite 6))"
    using that js_length_6_truthy [OF that] p unfolding c
    by (simp add: otp_verify_props [OF ps] body_field_res_json status_res_json get_prop_Cons)
  have reject: "otp_verify x b = rejected"
    if "truthy code" "js_length code \<noteq> Inr (JNum (Finite 6))"
    using that p unfolding c by (simp add: otp_verify_props [OF ps] rejected_def)
  have arr: "js_length code = Inr (JNum (Finite 6))" if "code = JArr xs" "length xs = 6" for xs
    using that by simp
  have num: "js_length code \<noteq> Inr (JNum (Finite 6))" if "code = JNum n" for n
    using that by simp
  show ?thesis
    unfolding h using accept reject arr num by blast
qed

theorem otp_verify_reads_only_length_witness:
  "truthy (JStr (lit ''+15551234567'')) \<and>
   length [JNull, JNull, JNull, JNull, JNull, JNull] = 6 \<and>
   status (sent (handle sample_env sample_extern
     (sample_request POST ''/api/otp/verify'' []
        (JObj [(lit ''phoneNumber'', JStr (lit ''+15551234567'')),
               (lit ''code'', JArr [JNull, JNull, JNull, JNull, JNull, JNull])])))) = 200"
proof -
  let ?req = "sample_request POST ''/api/otp/verify'' []
        (JObj [(lit ''phoneNumber'', JStr (lit ''+15551234567'')),
               (lit ''code'', JArr [JNull, JNull, JNull, JNull, JNull, JNull])])"
  have m: "req_method ?req = POST" by simp
  have p: "match_static ''/api/otp/verify'' (req_path ?req)"
    by (simp add: match_static_self lower_case_def)
  have t1: "truthy (body_prop ?req ''phoneNumber'')"
    by (simp add: body_prop_def get_prop_Cons)
  have c: "body_prop ?req ''code'' = JArr [JNull, JNull, JNull, JNull, JNull, JNull]"
    by (simp add: body_prop_def get_prop_Cons)
  show ?thesis
    using otp_verify_reads_only_length [OF m p t1, of sample_env sample_extern] c
    by simp
qed

end
